theory Spec2Isabelle
  imports Complex_Main
begin

section \<open>The recurrent super-resolution model of \<^verbatim>\<open>VSR/Backend/Torch/Models/Rlsp.py\<close>\<close>

text \<open>
  The file defines three classes: \<^verbatim>\<open>RLSPCell\<close> (a stack of convolutions),
  \<^verbatim>\<open>RlspNet\<close> (the recurrent network around the cell) and \<^verbatim>\<open>RLSP\<close> (the
  training step and the evaluation step). The embedding follows the Python line by line.
  A tensor is its shape together with a symbolic expression that records which operations
  of the tensor runtime produced it; the numbers inside a tensor are not modelled. Every
  exception is a value: \<open>TorchError\<close> stands for whatever the tensor runtime raises on
  a shape it refuses, the other constructors are the exceptions of the Python interpreter.
\<close>

subsection \<open>Errors\<close>

datatype error = TorchError | IndexError | KeyError | TypeError | AttributeError

fun ebind :: "error + 'a \<Rightarrow> ('a \<Rightarrow> error + 'b) \<Rightarrow> error + 'b" where
  "ebind (Inl e) k = Inl e"
| "ebind (Inr x) k = k x"

text \<open>A Python list read \<^verbatim>\<open>xs[i]\<close> at an index that is never negative.\<close>

definition py_index :: "'a list \<Rightarrow> nat \<Rightarrow> error + 'a" where
  "py_index xs i = (if i < length xs then Inr (xs ! i) else Inl IndexError)"

text \<open>A list comprehension whose element expression may raise: the first error wins.\<close>

fun mapM :: "('a \<Rightarrow> error + 'b) \<Rightarrow> 'a list \<Rightarrow> error + 'b list" where
  "mapM g [] = Inr []"
| "mapM g (x # xs) = ebind (g x) (\<lambda>y. ebind (mapM g xs) (\<lambda>ys. Inr (y # ys)))"

text \<open>A \<^verbatim>\<open>for\<close> loop over a list of indices, threading the loop variables.\<close>

fun foldM :: "('a \<Rightarrow> 's \<Rightarrow> error + 's) \<Rightarrow> 'a list \<Rightarrow> 's \<Rightarrow> error + 's" where
  "foldM body [] st = Inr st"
| "foldM body (x # xs) st = ebind (body x st) (foldM body xs)"

subsection \<open>Tensors and the operations of the tensor runtime\<close>

datatype layer = CellLayer nat | HiddenLayer | ExitLayer

datatype expr =
    Input nat
  | Zeros
  | Upsample nat expr
  | Interpolate nat expr
  | SpaceToDepth nat expr
  | PixelShuffle nat expr
  | Detach expr
  | Clamp expr
  | Cat "expr list"
  | Conv layer expr
  | Add expr expr

record tensor =
  shape :: "nat list"
  expr :: expr

definition torch_zeros :: "nat list \<Rightarrow> tensor" where
  "torch_zeros shp = \<lparr>shape = shp, expr = Zeros\<rparr>"

definition zeros_like :: "tensor \<Rightarrow> tensor" where
  "zeros_like x = torch_zeros (shape x)"

definition detach :: "tensor \<Rightarrow> tensor" where
  "detach x = \<lparr>shape = shape x, expr = Detach (expr x)\<rparr>"

definition clamp :: "tensor \<Rightarrow> tensor" where
  "clamp x = \<lparr>shape = shape x, expr = Clamp (expr x)\<rparr>"

text \<open>
  \<^verbatim>\<open>torch.cat(ts, dim=1)\<close>: the list is not empty, every tensor has the same number of
  dimensions (at least two) and the same sizes outside dimension 1; the sizes in
  dimension 1 add up.
\<close>

definition torch_cat :: "tensor list \<Rightarrow> error + tensor" where
  "torch_cat ts =
     (case ts of
        [] \<Rightarrow> Inl TorchError
      | t # _ \<Rightarrow>
          if 2 \<le> length (shape t) \<and>
             list_all (\<lambda>u. length (shape u) = length (shape t) \<and>
                            (shape u)[1 := 0] = (shape t)[1 := 0]) ts
          then Inr \<lparr>shape = (shape t)[1 := sum_list (map (\<lambda>u. shape u ! 1) ts)],
                    expr = Cat (map expr ts)\<rparr>
          else Inl TorchError)"

text \<open>
  \<^verbatim>\<open>F.interpolate(x, scale_factor=k)\<close> in its default nearest mode: three to five
  dimensions, the first two kept, the spatial ones multiplied by the factor.
\<close>

definition interpolate :: "tensor \<Rightarrow> nat \<Rightarrow> error + tensor" where
  "interpolate x k =
     (if 3 \<le> length (shape x) \<and> length (shape x) \<le> 5 \<and> 1 \<le> k
      then Inr \<lparr>shape = take 2 (shape x) @ map (\<lambda>n. n * k) (drop 2 (shape x)),
                expr = Interpolate k (expr x)\<rparr>
      else Inl TorchError)"

text \<open>
  \<^verbatim>\<open>F.pixel_shuffle(x, r)\<close>: the last three dimensions \<open>(c, h, w)\<close> with \<open>c\<close> a
  multiple of \<open>r * r\<close> become \<open>(c div (r * r), h * r, w * r)\<close>.
\<close>

definition pixel_shuffle :: "tensor \<Rightarrow> nat \<Rightarrow> error + tensor" where
  "pixel_shuffle x r =
     (let shp = shape x; m = length shp - 3 in
      if 3 \<le> length shp \<and> 1 \<le> r \<and> (shp ! m) mod (r * r) = 0
      then Inr \<lparr>shape = take m shp @ [(shp ! m) div (r * r), (shp ! (m + 1)) * r, (shp ! (m + 2)) * r],
                expr = PixelShuffle r (expr x)\<rparr>
      else Inl TorchError)"

text \<open>Broadcasting of two shapes, aligned at their last dimensions.\<close>

fun broadcast_rev :: "nat list \<Rightarrow> nat list \<Rightarrow> nat list option" where
  "broadcast_rev [] ys = Some ys"
| "broadcast_rev (x # xs) [] = Some (x # xs)"
| "broadcast_rev (x # xs) (y # ys) =
     (if x = y \<or> y = 1 then map_option ((#) x) (broadcast_rev xs ys)
      else if x = 1 then map_option ((#) y) (broadcast_rev xs ys)
      else None)"

definition broadcast :: "nat list \<Rightarrow> nat list \<Rightarrow> nat list option" where
  "broadcast a b = map_option rev (broadcast_rev (rev a) (rev b))"

text \<open>The tensor sum \<^verbatim>\<open>a + b\<close>.\<close>

definition add :: "tensor \<Rightarrow> tensor \<Rightarrow> error + tensor" where
  "add a b =
     (case broadcast (shape a) (shape b) of
        None \<Rightarrow> Inl TorchError
      | Some shp \<Rightarrow> Inr \<lparr>shape = shp, expr = Add (expr a) (expr b)\<rparr>)"

text \<open>
  \<^verbatim>\<open>F.mse_loss(x, y)\<close>: a scalar, defined when the two shapes broadcast. The value of
  the scalar is the parameter \<open>mse\<close>: the arithmetic inside tensors is not modelled.
\<close>

definition mse_loss :: "(tensor \<Rightarrow> tensor \<Rightarrow> real) \<Rightarrow> tensor \<Rightarrow> tensor \<Rightarrow> error + real" where
  "mse_loss mse x y =
     (case broadcast (shape x) (shape y) of
        None \<Rightarrow> Inl TorchError
      | Some _ \<Rightarrow> Inr (mse x y))"

subsection \<open>Helpers of the repository that the file imports\<close>

text \<open>
  Modelled from the spec: \<^verbatim>\<open>EasyConv2d\<close> of \<^verbatim>\<open>Ops/Blocks.py\<close> is not among the
  sources. The spec calls it a convolution building block and asks that output shapes are
  the input shapes scaled by the scale factor, so a layer built with kernel size 3 keeps
  the spatial size: it maps a batch \<open>[n, in_channels, h, w]\<close> to
  \<open>[n, out_channels, h, w]\<close> and refuses every other shape.
\<close>

record EasyConv2d =
  in_channels :: nat
  out_channels :: nat
  tag :: layer

definition conv2d :: "EasyConv2d \<Rightarrow> tensor \<Rightarrow> error + tensor" where
  "conv2d c x =
     (if length (shape x) = 4 \<and> shape x ! 1 = in_channels c
      then Inr \<lparr>shape = (shape x)[1 := out_channels c], expr = Conv (tag c) (expr x)\<rparr>
      else Inl TorchError)"

text \<open>
  Modelled from the spec: \<^verbatim>\<open>SpaceToDepth\<close> of \<^verbatim>\<open>Ops/Scale.py\<close> is not among the
  sources. The spec's glossary has it as the rearrangement used for down-sampling: a batch
  \<open>[n, c, h, w]\<close> with \<open>h\<close> and \<open>w\<close> multiples of the block size \<open>b\<close> becomes
  \<open>[n, c * b * b, h div b, w div b]\<close>.
\<close>

definition space_to_depth :: "nat \<Rightarrow> tensor \<Rightarrow> error + tensor" where
  "space_to_depth b x =
     (case shape x of
        [n, c, h, w] \<Rightarrow>
          if 1 \<le> b \<and> h mod b = 0 \<and> w mod b = 0
          then Inr \<lparr>shape = [n, c * b * b, h div b, w div b], expr = SpaceToDepth b (expr x)\<rparr>
          else Inl TorchError
      | _ \<Rightarrow> Inl TorchError)"

text \<open>
  Modelled from the spec: \<^verbatim>\<open>upsample\<close> of \<^verbatim>\<open>Util/Utility.py\<close> is not among the
  sources. The spec lists it as the upsampling utility: a batch \<open>[n, c, h, w]\<close> becomes
  \<open>[n, c, h * k, w * k]\<close>.
\<close>

definition upsample :: "tensor \<Rightarrow> nat \<Rightarrow> error + tensor" where
  "upsample x k =
     (case shape x of
        [n, c, h, w] \<Rightarrow> Inr \<lparr>shape = [n, c, h * k, w * k], expr = Upsample k (expr x)\<rparr>
      | _ \<Rightarrow> Inl TorchError)"

subsection \<open>\<^verbatim>\<open>RLSPCell\<close>\<close>

record RLSPCell =
  cell :: "EasyConv2d list"
  hidden_conv :: EasyConv2d
  exit_conv :: EasyConv2d

text \<open>
  \<^verbatim>\<open>__init__\<close>: the first layer, then one layer for each \<open>i\<close> of
  \<^verbatim>\<open>range(1, layers - 1)\<close>, the hidden layer and the exit layer.
\<close>

definition RLSPCell_init :: "nat \<Rightarrow> nat \<Rightarrow> nat \<Rightarrow> nat \<Rightarrow> RLSPCell" where
  "RLSPCell_init in_ch out_ch hidden_ch layers =
     \<lparr>cell = \<lparr>in_channels = in_ch, out_channels = hidden_ch, tag = CellLayer 0\<rparr> #
              map (\<lambda>i. \<lparr>in_channels = hidden_ch, out_channels = hidden_ch, tag = CellLayer i\<rparr>)
                [1..<layers - 1],
      hidden_conv = \<lparr>in_channels = hidden_ch, out_channels = hidden_ch, tag = HiddenLayer\<rparr>,
      exit_conv = \<lparr>in_channels = hidden_ch, out_channels = out_ch, tag = ExitLayer\<rparr>\<rparr>"

text \<open>\<^verbatim>\<open>nn.Sequential\<close>: the layers one after the other.\<close>

definition sequential :: "EasyConv2d list \<Rightarrow> tensor \<Rightarrow> error + tensor" where
  "sequential convs x = foldM conv2d convs x"

definition RLSPCell_forward ::
  "RLSPCell \<Rightarrow> tensor list \<Rightarrow> tensor \<Rightarrow> tensor \<Rightarrow> error + (tensor \<times> tensor)" where
  "RLSPCell_forward c lr_frames feedback hidden_state =
     ebind (torch_cat lr_frames) (\<lambda>lr.
     ebind (torch_cat [lr, hidden_state, feedback]) (\<lambda>inputs.
     ebind (sequential (cell c) inputs) (\<lambda>x.
     ebind (conv2d (hidden_conv c) x) (\<lambda>next_hidden_state.
     ebind (conv2d (exit_conv c) x) (\<lambda>residual.
     Inr (residual, next_hidden_state))))))"

subsection \<open>\<^verbatim>\<open>RlspNet\<close>\<close>

record RlspNet =
  rlspcell :: RLSPCell
  shuffle :: nat
  net_f :: nat
  net_d :: nat
  net_s :: nat

definition RlspNet_init :: "nat \<Rightarrow> nat \<Rightarrow> nat \<Rightarrow> nat \<Rightarrow> nat \<Rightarrow> RlspNet" where
  "RlspNet_init sc channel depth layers filters =
     (let in_ch = channel * depth + filters + channel * sc ^ 2 in
      \<lparr>rlspcell = RLSPCell_init in_ch (channel * sc ^ 2) filters layers,
       shuffle = sc,
       net_f = filters,
       net_d = depth,
       net_s = sc\<rparr>)"

text \<open>
  \<^verbatim>\<open>forward(lr, sr, hidden)\<close>. An absent hidden state is replaced by zeros of the shape
  of \<^verbatim>\<open>lr[0]\<close> with dimension 1 set to the number of filters.
\<close>

definition initial_hidden :: "RlspNet \<Rightarrow> tensor list \<Rightarrow> error + tensor" where
  "initial_hidden net lr =
     ebind (py_index lr 0) (\<lambda>lr0.
     if 1 < length (shape lr0)
     then Inr (torch_zeros ((shape lr0)[1 := net_f net]))
     else Inl IndexError)"

definition RlspNet_forward ::
  "RlspNet \<Rightarrow> tensor list \<Rightarrow> tensor \<Rightarrow> tensor option \<Rightarrow> error + (tensor \<times> tensor)" where
  "RlspNet_forward net lr sr hidden_arg =
     ebind (case hidden_arg of None \<Rightarrow> initial_hidden net lr | Some h \<Rightarrow> Inr h) (\<lambda>hidden.
     ebind (py_index lr (net_d net div 2)) (\<lambda>mid.
     ebind (interpolate mid (net_s net)) (\<lambda>center.
     ebind (space_to_depth (shuffle net) sr) (\<lambda>shuffled.
     ebind (RLSPCell_forward (rlspcell net) lr (detach shuffled) hidden) (\<lambda>(res, nxt).
     ebind (pixel_shuffle res (net_s net)) (\<lambda>ps.
     ebind (add center ps) (\<lambda>out.
     Inr (out, nxt))))))))"

subsection \<open>\<^verbatim>\<open>RLSP\<close>: the model, its optimizer and its loop variables\<close>

text \<open>
  \<^verbatim>\<open>self.scale\<close> is stored by the base class \<^verbatim>\<open>SuperResolution\<close>, which is not among
  the sources; it is the \<^verbatim>\<open>scale\<close> argument of the constructor.
\<close>

record RLSP =
  rlsp :: RlspNet
  clips :: nat
  scale :: nat

definition RLSP_init :: "nat \<Rightarrow> nat \<Rightarrow> nat \<Rightarrow> nat \<Rightarrow> nat \<Rightarrow> RLSP" where
  "RLSP_init sc channel cl layers filters =
     \<lparr>rlsp = RlspNet_init sc channel cl layers filters, clips = cl, scale = sc\<rparr>"

text \<open>
  The Adam optimizer \<^verbatim>\<open>self.adam\<close>: the \<^verbatim>\<open>"lr"\<close> entry of each parameter group,
  and the calls it has received. What a call does to the weights is the tensor runtime's
  business; the record keeps which calls were made, on what, and under which learning
  rates.
\<close>

datatype call = ZeroGrad | Backward real | Step "real list"

record optimizer =
  param_groups :: "real list"
  calls :: "call list"

text \<open>
  \<^verbatim>\<open>total_loss = 0\<close> is a Python integer until the first \<^verbatim>\<open>+=\<close> of a tensor makes
  it a tensor; an integer has neither \<^verbatim>\<open>backward\<close> nor \<^verbatim>\<open>cpu\<close>.
\<close>

datatype accumulator = PyInt0 | Scalar real

fun accumulate :: "accumulator \<Rightarrow> real \<Rightarrow> accumulator" where
  "accumulate PyInt0 x = Scalar (0 + x)"
| "accumulate (Scalar a) x = Scalar (a + x)"

record loop_vars =
  last_sr :: tensor
  last_hidden :: "tensor option"

record train_vars = loop_vars +
  total_loss :: accumulator
  image_loss :: accumulator

record eval_vars = loop_vars +
  psnr :: "real list"
  predicts :: "tensor list"
  idx :: nat

text \<open>
  \<^verbatim>\<open>[frames[i - self.clips // 2 + j] for j in range(self.clips)]\<close>. The loop only
  runs with \<open>clips div 2 \<le> i\<close>, so the index is never negative.
\<close>

definition lr_group :: "RLSP \<Rightarrow> tensor list \<Rightarrow> nat \<Rightarrow> error + tensor list" where
  "lr_group self frames i =
     mapM (\<lambda>j. py_index frames (i - clips self div 2 + j)) [0..<clips self]"

text \<open>
  \<^verbatim>\<open>last_sr = upsample(frames[0], self.scale); last_sr = torch.zeros_like(last_sr)\<close>
\<close>

definition initial_sr :: "RLSP \<Rightarrow> tensor list \<Rightarrow> error + tensor" where
  "initial_sr self frames =
     ebind (py_index frames 0) (\<lambda>frame0.
     ebind (upsample frame0 (scale self)) (\<lambda>up.
     Inr (zeros_like up)))"

text \<open>\<^verbatim>\<open>range(self.clips // 2, len(frames) - self.clips // 2)\<close>\<close>

definition centers :: "RLSP \<Rightarrow> tensor list \<Rightarrow> nat list" where
  "centers self frames = [clips self div 2 ..< length frames - clips self div 2]"

subsection \<open>\<^verbatim>\<open>RLSP.train\<close>\<close>

text \<open>
  \<open>frames\<close> and \<open>labels\<close> are the two lists that lines 87 and 88 split off the
  inputs; \<open>mse\<close> is the value of \<^verbatim>\<open>F.mse_loss\<close>; \<open>learning_rate\<close> is \<open>None\<close>
  for Python's \<^verbatim>\<open>None\<close>, and \<^verbatim>\<open>if learning_rate:\<close> holds for a number other than 0.
\<close>

definition train_body ::
  "RLSP \<Rightarrow> (tensor \<Rightarrow> tensor \<Rightarrow> real) \<Rightarrow> tensor list \<Rightarrow> tensor list \<Rightarrow> nat \<Rightarrow>
   train_vars \<Rightarrow> error + train_vars" where
  "train_body self mse frames labels i st =
     ebind (lr_group self frames i) (\<lambda>group.
     ebind (RlspNet_forward (rlsp self) group (last_sr st) (last_hidden st)) (\<lambda>(sr, hidden).
     ebind (py_index labels i) (\<lambda>label.
     ebind (mse_loss mse sr label) (\<lambda>l2_image.
     Inr (st\<lparr>last_hidden := Some hidden,
              last_sr := detach sr,
              total_loss := accumulate (total_loss st) l2_image,
              image_loss := accumulate (image_loss st) l2_image\<rparr>)))))"

definition train_loop ::
  "RLSP \<Rightarrow> (tensor \<Rightarrow> tensor \<Rightarrow> real) \<Rightarrow> tensor list \<Rightarrow> tensor list \<Rightarrow> error + train_vars" where
  "train_loop self mse frames labels =
     ebind (initial_sr self frames) (\<lambda>sr0.
     foldM (train_body self mse frames labels) (centers self frames)
       \<lparr>last_sr = sr0, last_hidden = None, total_loss = PyInt0, image_loss = PyInt0\<rparr>)"

definition set_learning_rate :: "real option \<Rightarrow> optimizer \<Rightarrow> optimizer" where
  "set_learning_rate learning_rate adam =
     (case learning_rate of
        None \<Rightarrow> adam
      | Some r \<Rightarrow>
          if r \<noteq> 0 then adam\<lparr>param_groups := map (\<lambda>_. r) (param_groups adam)\<rparr> else adam)"

definition train ::
  "RLSP \<Rightarrow> (tensor \<Rightarrow> tensor \<Rightarrow> real) \<Rightarrow> optimizer \<Rightarrow> tensor list \<Rightarrow> tensor list \<Rightarrow>
   real option \<Rightarrow> (error + (string \<times> real) list) \<times> optimizer" where
  "train self mse adam frames labels learning_rate =
     (let adam1 = set_learning_rate learning_rate adam in
      case train_loop self mse frames labels of
        Inl e \<Rightarrow> (Inl e, adam1)
      | Inr st \<Rightarrow>
          let adam2 = adam1\<lparr>calls := calls adam1 @ [ZeroGrad]\<rparr> in
          (case total_loss st of
             PyInt0 \<Rightarrow> (Inl AttributeError, adam2)
           | Scalar tloss \<Rightarrow>
               let adam3 = adam2\<lparr>calls := calls adam2 @ [Backward tloss, Step (param_groups adam2)]\<rparr> in
               (case image_loss st of
                  PyInt0 \<Rightarrow> (Inl AttributeError, adam3)
                | Scalar iloss \<Rightarrow>
                    (Inr [(''total_loss'', tloss / real (length frames)),
                          (''image_loss'', iloss / real (length frames))], adam3))))"

subsection \<open>\<^verbatim>\<open>RLSP.eval\<close>\<close>

text \<open>\<^verbatim>\<open>np.mean\<close> of a Python list: not a number for the empty list.\<close>

datatype npfloat = NaN | Num real

definition np_mean :: "real list \<Rightarrow> npfloat" where
  "np_mean xs = (if xs = [] then NaN else Num (sum_list xs / real (length xs)))"

text \<open>
  \<open>metric\<close> is the value of \<^verbatim>\<open>Metrics.psnr\<close> (\<^verbatim>\<open>Util/Metrics.py\<close> is not among
  the sources). \<open>labels\<close> is \<open>None\<close> when the caller passed none.
\<close>

definition eval_body ::
  "RLSP \<Rightarrow> (tensor \<Rightarrow> tensor \<Rightarrow> real) \<Rightarrow> tensor list \<Rightarrow> tensor list option \<Rightarrow> nat \<Rightarrow>
   eval_vars \<Rightarrow> error + eval_vars" where
  "eval_body self metric frames labels i st =
     ebind (lr_group self frames i) (\<lambda>group.
     ebind (RlspNet_forward (rlsp self) group (last_sr st) (last_hidden st)) (\<lambda>(sr, hidden).
     let st1 = st\<lparr>idx := i, last_sr := detach sr, predicts := predicts st @ [detach sr]\<rparr> in
     case labels of
       None \<Rightarrow> Inr st1
     | Some ls \<Rightarrow>
         ebind (py_index ls i) (\<lambda>label.
         Inr (st1\<lparr>psnr := psnr st1 @ [metric sr label]\<rparr>))))"

definition eval_loop ::
  "RLSP \<Rightarrow> (tensor \<Rightarrow> tensor \<Rightarrow> real) \<Rightarrow> tensor list \<Rightarrow> tensor list option \<Rightarrow>
   error + eval_vars" where
  "eval_loop self metric frames labels =
     ebind (initial_sr self frames) (\<lambda>sr0.
     foldM (eval_body self metric frames labels) (centers self frames)
       \<lparr>last_sr = sr0, last_hidden = None, psnr = [], predicts = [], idx = 0\<rparr>)"

text \<open>
  The summary writer: \<open>has_writer\<close> tells whether \<^verbatim>\<open>get_writer(self.name)\<close> returns
  one, \<open>kwargs\<close> are the keyword arguments of the call, and the images handed to
  \<^verbatim>\<open>writer.image\<close> are returned next to the result, in order.
\<close>

type_synonym image = "string \<times> tensor \<times> nat"

definition write_images ::
  "bool \<Rightarrow> (string \<rightharpoonup> nat) \<Rightarrow> tensor list option \<Rightarrow> eval_vars \<Rightarrow> (error + unit) \<times> image list" where
  "write_images has_writer kwargs labels st =
     (if has_writer then
        (case kwargs ''epoch'' of
           None \<Rightarrow> (Inl KeyError, [])
         | Some step \<Rightarrow>
             let written = [(''clean'', clamp (last_sr st), step)] in
             (case labels of
                None \<Rightarrow> (Inl TypeError, written)
              | Some ls \<Rightarrow>
                  (case py_index ls (idx st) of
                     Inl e \<Rightarrow> (Inl e, written)
                   | Inr label \<Rightarrow> (Inr (), written @ [(''label'', label, step)]))))
      else (Inr (), []))"

definition eval ::
  "RLSP \<Rightarrow> (tensor \<Rightarrow> tensor \<Rightarrow> real) \<Rightarrow> bool \<Rightarrow> tensor list \<Rightarrow> tensor list option \<Rightarrow>
   (string \<rightharpoonup> nat) \<Rightarrow> (error + (tensor list \<times> (string \<times> npfloat) list)) \<times> image list" where
  "eval self metric has_writer frames labels kwargs =
     (case eval_loop self metric frames labels of
        Inl e \<Rightarrow> (Inl e, [])
      | Inr st \<Rightarrow>
          let metrics = [(''psnr'', np_mean (psnr st))] in
          (case write_images has_writer kwargs labels st of
             (Inl e, written) \<Rightarrow> (Inl e, written)
           | (Inr _, written) \<Rightarrow> (Inr (predicts st, metrics), written)))"

section \<open>Vocabulary of the properties\<close>

text \<open>
  The expression a stack of layers builds over its input, and the expression of the hidden
  state a forward pass works with (zeros when none was passed).
\<close>

definition stack_expr :: "EasyConv2d list \<Rightarrow> expr \<Rightarrow> expr" where
  "stack_expr convs e = foldl (\<lambda>a c. Conv (tag c) a) e convs"

definition hidden_expr :: "tensor option \<Rightarrow> expr" where
  "hidden_expr hidden_arg = (case hidden_arg of None \<Rightarrow> Zeros | Some t \<Rightarrow> expr t)"

text \<open>
  What the cell receives: the frames of the window joined along the channels, then the
  hidden state, then the detached, space-to-depth rearranged feedback frame.
\<close>

definition cell_input :: "RlspNet \<Rightarrow> tensor list \<Rightarrow> tensor \<Rightarrow> tensor option \<Rightarrow> expr" where
  "cell_input net lr sr hidden_arg =
     Cat [Cat (map expr lr), hidden_expr hidden_arg, Detach (SpaceToDepth (shuffle net) (expr sr))]"

text \<open>
  Shapes that fit a model: low-resolution frames \<open>[n, c, h, w]\<close>, super-resolved frames
  and labels \<open>[n, c, h * k, w * k]\<close>, hidden states \<open>[n, f, h, w]\<close>.
\<close>

definition all_shaped :: "nat list \<Rightarrow> tensor list \<Rightarrow> bool" where
  "all_shaped shp ts = list_all (\<lambda>x. shape x = shp) ts"

definition hidden_shaped :: "nat list \<Rightarrow> tensor option \<Rightarrow> bool" where
  "hidden_shaped shp hidden_arg = (case hidden_arg of None \<Rightarrow> True | Some t \<Rightarrow> shape t = shp)"

text \<open>
  A run of the network over the centre indices \<open>ids\<close>, as the outputs
  \<open>(sr, hidden)\<close> of its calls: call \<open>k\<close> gets the window around \<open>ids ! k\<close>; its
  feedback frame is \<open>z\<close> for the first call and the detached frame of call \<open>k - 1\<close>
  afterwards; its hidden state is absent for the first call and, in a threaded run, the
  hidden state of call \<open>k - 1\<close> afterwards (in a run that is not threaded it is always
  absent).
\<close>

definition feedback_in :: "tensor \<Rightarrow> (tensor \<times> tensor) list \<Rightarrow> nat \<Rightarrow> tensor" where
  "feedback_in z outs k = (if k = 0 then z else detach (fst (outs ! (k - 1))))"

definition hidden_in :: "bool \<Rightarrow> (tensor \<times> tensor) list \<Rightarrow> nat \<Rightarrow> tensor option" where
  "hidden_in threaded outs k = (if threaded \<and> 0 < k then Some (snd (outs ! (k - 1))) else None)"

definition run_of ::
  "bool \<Rightarrow> RLSP \<Rightarrow> tensor list \<Rightarrow> nat list \<Rightarrow> tensor \<Rightarrow> (tensor \<times> tensor) list \<Rightarrow> bool" where
  "run_of threaded self frames ids z outs =
     (length outs = length ids \<and>
      list_all (\<lambda>k. ebind (lr_group self frames (ids ! k)) (\<lambda>group.
                       RlspNet_forward (rlsp self) group (feedback_in z outs k)
                         (hidden_in threaded outs k)) = Inr (outs ! k))
        [0..<length ids])"

section \<open>Example inputs\<close>

text \<open>
  A small model (scale 2, one channel, windows of 3 frames, 2 layers, 4 filters), the same
  model with windows of 2 frames, frames of 4 by 4 pixels with their labels of 8 by 8, and
  the optimizer as the constructor builds it.
\<close>

definition example_frame :: "nat \<Rightarrow> tensor" where
  "example_frame k = \<lparr>shape = [1, 1, 4, 4], expr = Input k\<rparr>"

definition example_label :: "nat \<Rightarrow> tensor" where
  "example_label k = \<lparr>shape = [1, 1, 8, 8], expr = Input (100 + k)\<rparr>"

definition example_model :: RLSP where
  "example_model = RLSP_init 2 1 3 2 4"

definition even_model :: RLSP where
  "even_model = RLSP_init 2 1 2 2 4"

definition example_adam :: optimizer where
  "example_adam = \<lparr>param_groups = [1 / 10000], calls = []\<rparr>"

definition example_frames :: "tensor list" where
  "example_frames = [example_frame 0, example_frame 1, example_frame 2, example_frame 3]"

definition example_labels :: "tensor list" where
  "example_labels = [example_label 0, example_label 1, example_label 2, example_label 3]"

text \<open>
  What the example model computes on the four example frames. The first call works on the
  window of frames 0 to 2; the second on frames 1 to 3, with the detached first frame as
  feedback and \<open>hid\<close> in the place of the hidden state.
\<close>

definition first_input :: expr where
  "first_input = Cat [Cat [Input 0, Input 1, Input 2], Zeros, Detach (SpaceToDepth 2 Zeros)]"

definition first_sr :: tensor where
  "first_sr = \<lparr>shape = [1, 1, 8, 8],
               expr = Add (Interpolate 2 (Input 1))
                        (PixelShuffle 2 (Conv ExitLayer (Conv (CellLayer 0) first_input)))\<rparr>"

definition first_hidden :: tensor where
  "first_hidden = \<lparr>shape = [1, 4, 4, 4], expr = Conv HiddenLayer (Conv (CellLayer 0) first_input)\<rparr>"

definition second_input :: "expr \<Rightarrow> expr" where
  "second_input hid =
     Cat [Cat [Input 1, Input 2, Input 3], hid, Detach (SpaceToDepth 2 (Detach (expr first_sr)))]"

definition second_sr :: "expr \<Rightarrow> tensor" where
  "second_sr hid = \<lparr>shape = [1, 1, 8, 8],
                    expr = Add (Interpolate 2 (Input 2))
                             (PixelShuffle 2 (Conv ExitLayer (Conv (CellLayer 0) (second_input hid))))\<rparr>"

definition second_hidden :: "expr \<Rightarrow> tensor" where
  "second_hidden hid = \<lparr>shape = [1, 4, 4, 4],
                        expr = Conv HiddenLayer (Conv (CellLayer 0) (second_input hid))\<rparr>"

text \<open>
  A loss and a metric for the examples that tell tensors apart: the number of operations
  and inputs in the expressions of the two tensors.
\<close>

fun weight :: "expr \<Rightarrow> nat" where
  "weight (Input k) = Suc k"
| "weight Zeros = 0"
| "weight (Upsample k e) = Suc (weight e)"
| "weight (Interpolate k e) = Suc (weight e)"
| "weight (SpaceToDepth k e) = Suc (weight e)"
| "weight (PixelShuffle k e) = Suc (weight e)"
| "weight (Detach e) = Suc (weight e)"
| "weight (Clamp e) = Suc (weight e)"
| "weight (Cat es) = Suc (sum_list (map weight es))"
| "weight (Conv l e) = Suc (weight e)"
| "weight (Add a b) = Suc (weight a + weight b)"

definition example_metric :: "tensor \<Rightarrow> tensor \<Rightarrow> real" where
  "example_metric x y = real (weight (expr x) + weight (expr y))"

section \<open>Lemmas\<close>

subsection \<open>Errors, loops and windows\<close>

lemma ebind_Inr_iff: "ebind m k = Inr y \<longleftrightarrow> (\<exists>x. m = Inr x \<and> k x = Inr y)"
  by (cases m) auto

lemma foldM_append: "foldM body (xs @ ys) st = ebind (foldM body xs st) (foldM body ys)"
proof (induction xs arbitrary: st)
  case Nil
  show ?case by simp
next
  case (Cons x xs)
  show ?case by (cases "body x st") (simp_all add: Cons.IH)
qed

lemma mapM_Inr: "list_all (\<lambda>j. g j = Inr (h j)) js \<Longrightarrow> mapM g js = Inr (map h js)"
  by (induction js) simp_all

lemma lr_group_window:
  assumes "i \<in> set (centers self frames)"
  shows "lr_group self frames i =
           Inr (map (\<lambda>j. frames ! (i - clips self div 2 + j)) [0..<clips self])"
proof -
  have "list_all (\<lambda>j. py_index frames (i - clips self div 2 + j)
                        = Inr (frames ! (i - clips self div 2 + j))) [0..<clips self]"
    using assms by (auto simp: list_all_iff py_index_def centers_def)
  then show ?thesis
    unfolding lr_group_def by (rule mapM_Inr)
qed

lemma broadcast_rev_same: "broadcast_rev xs xs = Some xs"
  by (induction xs) simp_all

lemma broadcast_same: "broadcast a a = Some a"
  by (simp add: broadcast_def broadcast_rev_same)

lemma sum_list_const: "list_all (\<lambda>x. g x = (c::nat)) ts \<Longrightarrow> sum_list (map g ts) = length ts * c"
  by (induction ts) simp_all

lemma torch_cat_same:
  assumes "list_all (\<lambda>x. shape x = [n, c, h, w]) ts" and "ts \<noteq> []"
  shows "torch_cat ts = Inr \<lparr>shape = [n, length ts * c, h, w], expr = Cat (map expr ts)\<rparr>"
proof -
  obtain t rest where ts: "ts = t # rest" using assms(2) by (cases ts) auto
  have t: "shape t = [n, c, h, w]" using assms(1) ts by simp
  have all: "list_all (\<lambda>u. length (shape u) = length (shape t) \<and>
                            (shape u)[1 := 0] = (shape t)[1 := 0]) ts"
    using assms(1) t by (induction ts) simp_all
  have "list_all (\<lambda>x. shape x ! 1 = c) ts"
    using assms(1) by (induction ts) simp_all
  then have s: "sum_list (map (\<lambda>u. shape u ! 1) ts) = length ts * c"
    by (rule sum_list_const)
  show ?thesis
    using all s t unfolding torch_cat_def ts by simp
qed

subsection \<open>The forward pass on shapes that fit\<close>

lemma sequential_same:
  assumes "list_all (\<lambda>c. in_channels c = f \<and> out_channels c = f) convs"
    and "shape x = [n, f, h, w]"
  shows "foldM conv2d convs x = Inr \<lparr>shape = [n, f, h, w], expr = stack_expr convs (expr x)\<rparr>"
  using assms
proof (induction convs arbitrary: x)
  case Nil
  then show ?case by (simp add: stack_expr_def)
next
  case (Cons c convs)
  have step: "conv2d c x = Inr \<lparr>shape = [n, f, h, w], expr = Conv (tag c) (expr x)\<rparr>"
    using Cons.prems by (simp add: conv2d_def)
  have "foldM conv2d convs \<lparr>shape = [n, f, h, w], expr = Conv (tag c) (expr x)\<rparr>
          = Inr \<lparr>shape = [n, f, h, w], expr = stack_expr convs (Conv (tag c) (expr x))\<rparr>"
    using Cons.prems(1) by (intro Cons.IH[THEN trans]) simp_all
  then show ?case
    using step by (simp add: stack_expr_def)
qed

lemma cell_stack:
  assumes "shape x = [n, i, h, w]"
  shows "sequential (cell (RLSPCell_init i out f layers)) x
           = Inr \<lparr>shape = [n, f, h, w],
                  expr = stack_expr (cell (RLSPCell_init i out f layers)) (expr x)\<rparr>"
proof -
  let ?first = "\<lparr>in_channels = i, out_channels = f, tag = CellLayer 0\<rparr>"
  let ?rest = "map (\<lambda>k. \<lparr>in_channels = f, out_channels = f, tag = CellLayer k\<rparr>) [1..<layers - 1]"
  have first: "conv2d ?first x = Inr \<lparr>shape = [n, f, h, w], expr = Conv (CellLayer 0) (expr x)\<rparr>"
    using assms by (simp add: conv2d_def)
  have "list_all (\<lambda>c. in_channels c = f \<and> out_channels c = f) ?rest"
    by (simp add: list_all_iff)
  then have rest: "foldM conv2d ?rest \<lparr>shape = [n, f, h, w], expr = Conv (CellLayer 0) (expr x)\<rparr>
      = Inr \<lparr>shape = [n, f, h, w], expr = stack_expr ?rest (Conv (CellLayer 0) (expr x))\<rparr>"
    by (intro sequential_same[THEN trans]) simp_all
  show ?thesis
    using first rest by (simp add: sequential_def RLSPCell_init_def stack_expr_def)
qed

lemma RLSPCell_forward_ok:
  assumes "all_shaped [n, c, h, w] lr" and "lr \<noteq> []"
    and "shape hid = [n, f, h, w]" and "shape fb = [n, b, h, w]"
    and "i = length lr * c + f + b"
  shows "RLSPCell_forward (RLSPCell_init i out f layers) lr fb hid
           = Inr (\<lparr>shape = [n, out, h, w],
                   expr = Conv ExitLayer (stack_expr (cell (RLSPCell_init i out f layers))
                            (Cat [Cat (map expr lr), expr hid, expr fb]))\<rparr>,
                  \<lparr>shape = [n, f, h, w],
                   expr = Conv HiddenLayer (stack_expr (cell (RLSPCell_init i out f layers))
                            (Cat [Cat (map expr lr), expr hid, expr fb]))\<rparr>)"
proof -
  let ?lr = "\<lparr>shape = [n, length lr * c, h, w], expr = Cat (map expr lr)\<rparr>"
  let ?in = "\<lparr>shape = [n, i, h, w], expr = Cat [Cat (map expr lr), expr hid, expr fb]\<rparr>"
  have c1: "torch_cat lr = Inr ?lr"
    using assms(1,2) unfolding all_shaped_def by (rule torch_cat_same)
  have c2: "torch_cat [?lr, hid, fb] = Inr ?in"
    using assms(3,4,5) by (simp add: torch_cat_def)
  have c3: "sequential (cell (RLSPCell_init i out f layers)) ?in
      = Inr \<lparr>shape = [n, f, h, w],
             expr = stack_expr (cell (RLSPCell_init i out f layers)) (expr ?in)\<rparr>"
    by (rule cell_stack) simp
  show ?thesis
    unfolding RLSPCell_forward_def c1 ebind.simps c2 c3
    by (simp add: conv2d_def RLSPCell_init_def)
qed

lemma RlspNet_forward_ok:
  assumes sc: "1 \<le> sc" and depth: "1 \<le> depth" and len: "length lr = depth"
    and lr: "all_shaped [n, ch, h, w] lr"
    and sr: "shape sr = [n, ch, h * sc, w * sc]"
    and hid: "hidden_shaped [n, filters, h, w] hidden_arg"
  shows "RlspNet_forward (RlspNet_init sc ch depth layers filters) lr sr hidden_arg
           = Inr (\<lparr>shape = [n, ch, h * sc, w * sc],
                   expr = Add (Interpolate sc (expr (lr ! (depth div 2))))
                            (PixelShuffle sc (Conv ExitLayer
                               (stack_expr (cell (rlspcell (RlspNet_init sc ch depth layers filters)))
                                  (cell_input (RlspNet_init sc ch depth layers filters) lr sr hidden_arg))))\<rparr>,
                  \<lparr>shape = [n, filters, h, w],
                   expr = Conv HiddenLayer
                            (stack_expr (cell (rlspcell (RlspNet_init sc ch depth layers filters)))
                               (cell_input (RlspNet_init sc ch depth layers filters) lr sr hidden_arg))\<rparr>)"
proof -
  let ?net = "RlspNet_init sc ch depth layers filters"
  let ?i = "ch * depth + filters + ch * sc ^ 2"
  have ne: "lr \<noteq> []" using depth len by auto
  have nth: "shape (lr ! k) = [n, ch, h, w]" if "k < length lr" for k
    using lr that by (simp add: all_shaped_def list_all_length)
  define h0 where "h0 = (case hidden_arg of None \<Rightarrow> torch_zeros [n, filters, h, w] | Some t \<Rightarrow> t)"
  have "initial_hidden ?net lr = Inr (torch_zeros [n, filters, h, w])"
    using ne nth[of 0] by (simp add: initial_hidden_def py_index_def RlspNet_init_def)
  then have hd: "(case hidden_arg of None \<Rightarrow> initial_hidden ?net lr | Some t \<Rightarrow> Inr t) = Inr h0"
    by (simp add: h0_def split: option.split)
  have hd_shape: "shape h0 = [n, filters, h, w]"
    using hid by (cases hidden_arg) (simp_all add: h0_def hidden_shaped_def torch_zeros_def)
  have hd_expr: "expr h0 = hidden_expr hidden_arg"
    by (simp add: h0_def hidden_expr_def torch_zeros_def split: option.split)
  have mid: "py_index lr (net_d ?net div 2) = Inr (lr ! (depth div 2))"
    using depth len by (simp add: py_index_def RlspNet_init_def)
  have center: "interpolate (lr ! (depth div 2)) (net_s ?net)
      = Inr \<lparr>shape = [n, ch, h * sc, w * sc], expr = Interpolate sc (expr (lr ! (depth div 2)))\<rparr>"
    using sc depth len nth[of "depth div 2"] by (simp add: interpolate_def RlspNet_init_def)
  have shuf: "space_to_depth (shuffle ?net) sr
      = Inr \<lparr>shape = [n, ch * sc * sc, h, w], expr = SpaceToDepth sc (expr sr)\<rparr>"
    using sc sr by (simp add: space_to_depth_def RlspNet_init_def)
  let ?fb = "detach \<lparr>shape = [n, ch * sc * sc, h, w], expr = SpaceToDepth sc (expr sr)\<rparr>"
  have fb: "shape ?fb = [n, ch * sc * sc, h, w]" "expr ?fb = Detach (SpaceToDepth sc (expr sr))"
    by (simp_all add: detach_def)
  have cellrun: "RLSPCell_forward (RLSPCell_init ?i (ch * sc ^ 2) filters layers) lr ?fb h0
      = Inr (\<lparr>shape = [n, ch * sc ^ 2, h, w],
              expr = Conv ExitLayer (stack_expr (cell (RLSPCell_init ?i (ch * sc ^ 2) filters layers))
                       (Cat [Cat (map expr lr), expr h0, expr ?fb]))\<rparr>,
             \<lparr>shape = [n, filters, h, w],
              expr = Conv HiddenLayer (stack_expr (cell (RLSPCell_init ?i (ch * sc ^ 2) filters layers))
                       (Cat [Cat (map expr lr), expr h0, expr ?fb]))\<rparr>)"
    using lr ne hd_shape fb(1)
    by (rule RLSPCell_forward_ok) (simp add: len power2_eq_square mult.commute mult.assoc)
  have cell_eq: "rlspcell ?net = RLSPCell_init ?i (ch * sc ^ 2) filters layers"
    by (simp add: RlspNet_init_def)
  have input_eq: "Cat [Cat (map expr lr), expr h0, expr ?fb] = cell_input ?net lr sr hidden_arg"
    by (simp add: cell_input_def hd_expr fb(2) RlspNet_init_def)
  have ps: "pixel_shuffle \<lparr>shape = [n, ch * sc ^ 2, h, w], expr = e\<rparr> (net_s ?net)
      = Inr \<lparr>shape = [n, ch, h * sc, w * sc], expr = PixelShuffle sc e\<rparr>" for e
    using sc by (simp add: pixel_shuffle_def RlspNet_init_def power2_eq_square)
  show ?thesis
    unfolding RlspNet_forward_def hd ebind.simps mid center shuf cell_eq cellrun input_eq
      prod.case ps
    by (simp add: add_def broadcast_same)
qed

subsection \<open>The loops as runs of the network\<close>

lemma feedback_in_append: "k \<le> length outs \<Longrightarrow> feedback_in z (outs @ ys) k = feedback_in z outs k"
  by (cases k) (auto simp: feedback_in_def nth_append)

lemma hidden_in_append: "k \<le> length outs \<Longrightarrow> hidden_in t (outs @ ys) k = hidden_in t outs k"
  by (cases k) (auto simp: hidden_in_def nth_append)

lemma run_of_Nil: "run_of t self frames [] z []"
  by (simp add: run_of_def)

lemma run_of_snoc:
  assumes "run_of t self frames ids z outs"
    and "lr_group self frames i = Inr g"
    and "RlspNet_forward (rlsp self) g (feedback_in z outs (length ids)) (hidden_in t outs (length ids)) = Inr out"
  shows "run_of t self frames (ids @ [i]) z (outs @ [out])"
proof -
  have len: "length outs = length ids" using assms(1) by (simp add: run_of_def)
  have old: "ebind (lr_group self frames (ids ! k)) (\<lambda>group.
               RlspNet_forward (rlsp self) group (feedback_in z outs k) (hidden_in t outs k)) = Inr (outs ! k)"
    if "k < length ids" for k
    using assms(1) that by (simp add: run_of_def list_all_iff)
  have "ebind (lr_group self frames ((ids @ [i]) ! k)) (\<lambda>group.
          RlspNet_forward (rlsp self) group (feedback_in z (outs @ [out]) k)
            (hidden_in t (outs @ [out]) k)) = Inr ((outs @ [out]) ! k)"
    if "k \<in> set [0..<length (ids @ [i])]" for k
  proof (cases "k < length ids")
    case True
    then show ?thesis
      using old[OF True] len by (simp add: nth_append feedback_in_append hidden_in_append)
  next
    case False
    then have k: "k = length ids" using that by simp
    show ?thesis
      using assms(2,3) len by (simp add: k nth_append feedback_in_append hidden_in_append)
  qed
  then have "list_all (\<lambda>k. ebind (lr_group self frames ((ids @ [i]) ! k)) (\<lambda>group.
          RlspNet_forward (rlsp self) group (feedback_in z (outs @ [out]) k)
            (hidden_in t (outs @ [out]) k)) = Inr ((outs @ [out]) ! k)) [0..<length (ids @ [i])]"
    unfolding list_all_iff by blast
  then show ?thesis
    unfolding run_of_def using len by simp
qed

lemma train_body_Inr:
  assumes "train_body self mse frames labels i st = Inr st'"
  shows "\<exists>g sr hid. lr_group self frames i = Inr g
           \<and> RlspNet_forward (rlsp self) g (last_sr st) (last_hidden st) = Inr (sr, hid)
           \<and> i < length labels
           \<and> broadcast (shape sr) (shape (labels ! i)) \<noteq> None
           \<and> st' = st\<lparr>last_hidden := Some hid, last_sr := detach sr,
                       total_loss := accumulate (total_loss st) (mse sr (labels ! i)),
                       image_loss := accumulate (image_loss st) (mse sr (labels ! i))\<rparr>"
  using assms unfolding train_body_def
  by (auto simp: ebind_Inr_iff py_index_def mse_loss_def split: if_splits option.splits)

lemma eval_body_Inr:
  assumes "eval_body self metric frames labels i st = Inr st'"
  shows "\<exists>g sr hid. lr_group self frames i = Inr g
           \<and> RlspNet_forward (rlsp self) g (last_sr st) (last_hidden st) = Inr (sr, hid)
           \<and> (case labels of None \<Rightarrow> True | Some ls \<Rightarrow> i < length ls)
           \<and> st' = st\<lparr>idx := i, last_sr := detach sr, predicts := predicts st @ [detach sr],
                       psnr := psnr st @ (case labels of None \<Rightarrow> []
                                            | Some ls \<Rightarrow> [metric sr (ls ! i)])\<rparr>"
  using assms unfolding eval_body_def
  by (auto simp: ebind_Inr_iff py_index_def Let_def split: if_splits option.splits)

lemma train_foldM_run:
  assumes "foldM (train_body self mse frames labels) ids
             \<lparr>last_sr = z, last_hidden = None, total_loss = PyInt0, image_loss = PyInt0\<rparr> = Inr st"
  shows "\<exists>outs. run_of True self frames ids z outs
           \<and> last_sr st = feedback_in z outs (length ids)
           \<and> last_hidden st = hidden_in True outs (length ids)
           \<and> total_loss st = foldl accumulate PyInt0
                 (map (\<lambda>k. mse (fst (outs ! k)) (labels ! (ids ! k))) [0..<length ids])
           \<and> image_loss st = total_loss st"
  using assms
proof (induction ids arbitrary: st rule: rev_induct)
  case Nil
  then show ?case
    by (intro exI[of _ "[]"]) (auto simp: run_of_Nil feedback_in_def hidden_in_def)
next
  case (snoc i ids)
  let ?st0 = "\<lparr>last_sr = z, last_hidden = None, total_loss = PyInt0, image_loss = PyInt0\<rparr>"
  from snoc.prems obtain mid where mid: "foldM (train_body self mse frames labels) ids ?st0 = Inr mid"
    and step: "train_body self mse frames labels i mid = Inr st"
    by (auto simp: foldM_append ebind_Inr_iff)
  from snoc.IH[OF mid] obtain outs where run: "run_of True self frames ids z outs"
    and sr: "last_sr mid = feedback_in z outs (length ids)"
    and hid: "last_hidden mid = hidden_in True outs (length ids)"
    and tot: "total_loss mid = foldl accumulate PyInt0
                 (map (\<lambda>k. mse (fst (outs ! k)) (labels ! (ids ! k))) [0..<length ids])"
    and img: "image_loss mid = total_loss mid"
    by blast
  from train_body_Inr[OF step] obtain g out nxt where g: "lr_group self frames i = Inr g"
    and fw: "RlspNet_forward (rlsp self) g (last_sr mid) (last_hidden mid) = Inr (out, nxt)"
    and st: "st = mid\<lparr>last_hidden := Some nxt, last_sr := detach out,
                      total_loss := accumulate (total_loss mid) (mse out (labels ! i)),
                      image_loss := accumulate (image_loss mid) (mse out (labels ! i))\<rparr>"
    by blast
  have len: "length outs = length ids" using run by (simp add: run_of_def)
  have run': "run_of True self frames (ids @ [i]) z (outs @ [(out, nxt)])"
    using run g fw unfolding sr hid by (rule run_of_snoc)
  have same: "map (\<lambda>k. mse (fst ((outs @ [(out, nxt)]) ! k)) (labels ! ((ids @ [i]) ! k))) [0..<length ids]
      = map (\<lambda>k. mse (fst (outs ! k)) (labels ! (ids ! k))) [0..<length ids]"
    using len by (simp add: nth_append)
  have losses: "map (\<lambda>k. mse (fst ((outs @ [(out, nxt)]) ! k)) (labels ! ((ids @ [i]) ! k)))
                  [0..<length (ids @ [i])]
      = map (\<lambda>k. mse (fst (outs ! k)) (labels ! (ids ! k))) [0..<length ids] @ [mse out (labels ! i)]"
    using len same by (simp add: nth_append)
  show ?case
  proof (intro exI[of _ "outs @ [(out, nxt)]"] conjI)
    show "run_of True self frames (ids @ [i]) z (outs @ [(out, nxt)])" by (rule run')
    show "last_sr st = feedback_in z (outs @ [(out, nxt)]) (length (ids @ [i]))"
      using len by (simp add: st feedback_in_def nth_append)
    show "last_hidden st = hidden_in True (outs @ [(out, nxt)]) (length (ids @ [i]))"
      using len by (simp add: st hidden_in_def nth_append)
    show "total_loss st = foldl accumulate PyInt0
            (map (\<lambda>k. mse (fst ((outs @ [(out, nxt)]) ! k)) (labels ! ((ids @ [i]) ! k)))
               [0..<length (ids @ [i])])"
      unfolding losses by (simp add: st tot)
    show "image_loss st = total_loss st"
      by (simp add: st img)
  qed
qed

lemma eval_foldM_run:
  assumes "foldM (eval_body self metric frames labels) ids
             \<lparr>last_sr = z, last_hidden = None, psnr = [], predicts = [], idx = 0\<rparr> = Inr st"
  shows "\<exists>outs. run_of False self frames ids z outs
           \<and> last_sr st = feedback_in z outs (length ids)
           \<and> last_hidden st = None
           \<and> predicts st = map (\<lambda>out. detach (fst out)) outs
           \<and> psnr st = (case labels of None \<Rightarrow> []
                         | Some ls \<Rightarrow> map (\<lambda>k. metric (fst (outs ! k)) (ls ! (ids ! k))) [0..<length ids])
           \<and> idx st = (if ids = [] then 0 else last ids)
           \<and> (case labels of None \<Rightarrow> True | Some ls \<Rightarrow> list_all (\<lambda>i. i < length ls) ids)"
  using assms
proof (induction ids arbitrary: st rule: rev_induct)
  case Nil
  then show ?case
    by (intro exI[of _ "[]"]) (auto simp: run_of_Nil feedback_in_def split: option.splits)
next
  case (snoc i ids)
  let ?st0 = "\<lparr>last_sr = z, last_hidden = None, psnr = [], predicts = [], idx = 0\<rparr>"
  from snoc.prems obtain mid where mid: "foldM (eval_body self metric frames labels) ids ?st0 = Inr mid"
    and step: "eval_body self metric frames labels i mid = Inr st"
    by (auto simp: foldM_append ebind_Inr_iff)
  from snoc.IH[OF mid] obtain outs where run: "run_of False self frames ids z outs"
    and sr: "last_sr mid = feedback_in z outs (length ids)"
    and hid: "last_hidden mid = None"
    and preds: "predicts mid = map (\<lambda>out. detach (fst out)) outs"
    and ps: "psnr mid = (case labels of None \<Rightarrow> []
                         | Some ls \<Rightarrow> map (\<lambda>k. metric (fst (outs ! k)) (ls ! (ids ! k))) [0..<length ids])"
    and lab: "(case labels of None \<Rightarrow> True | Some ls \<Rightarrow> list_all (\<lambda>i. i < length ls) ids)"
    by blast
  from eval_body_Inr[OF step] obtain g out nxt where g: "lr_group self frames i = Inr g"
    and fw: "RlspNet_forward (rlsp self) g (last_sr mid) (last_hidden mid) = Inr (out, nxt)"
    and li: "(case labels of None \<Rightarrow> True | Some ls \<Rightarrow> i < length ls)"
    and st: "st = mid\<lparr>idx := i, last_sr := detach out, predicts := predicts mid @ [detach out],
                      psnr := psnr mid @ (case labels of None \<Rightarrow> []
                                            | Some ls \<Rightarrow> [metric out (ls ! i)])\<rparr>"
    by blast
  have len: "length outs = length ids" using run by (simp add: run_of_def)
  have hid': "last_hidden mid = hidden_in False outs (length ids)"
    by (simp add: hid hidden_in_def)
  have run': "run_of False self frames (ids @ [i]) z (outs @ [(out, nxt)])"
    using run g fw unfolding sr hid' by (rule run_of_snoc)
  have same: "map (\<lambda>k. metric (fst ((outs @ [(out, nxt)]) ! k)) (ls ! ((ids @ [i]) ! k))) [0..<length ids]
      = map (\<lambda>k. metric (fst (outs ! k)) (ls ! (ids ! k))) [0..<length ids]" for ls
    using len by (simp add: nth_append)
  have vals: "map (\<lambda>k. metric (fst ((outs @ [(out, nxt)]) ! k)) (ls ! ((ids @ [i]) ! k)))
                  [0..<length (ids @ [i])]
      = map (\<lambda>k. metric (fst (outs ! k)) (ls ! (ids ! k))) [0..<length ids] @ [metric out (ls ! i)]" for ls
    using len same[of ls] by (simp add: nth_append)
  show ?case
  proof (intro exI[of _ "outs @ [(out, nxt)]"] conjI)
    show "run_of False self frames (ids @ [i]) z (outs @ [(out, nxt)])" by (rule run')
    show "last_sr st = feedback_in z (outs @ [(out, nxt)]) (length (ids @ [i]))"
      using len by (simp add: st feedback_in_def nth_append)
    show "last_hidden st = None"
      by (simp add: st hid)
    show "predicts st = map (\<lambda>out. detach (fst out)) (outs @ [(out, nxt)])"
      by (simp add: st preds)
    show "psnr st = (case labels of None \<Rightarrow> []
                     | Some ls \<Rightarrow> map (\<lambda>k. metric (fst ((outs @ [(out, nxt)]) ! k)) (ls ! ((ids @ [i]) ! k)))
                                     [0..<length (ids @ [i])])"
      unfolding vals by (simp add: st ps split: option.split)
    show "idx st = (if ids @ [i] = [] then 0 else last (ids @ [i]))"
      by (simp add: st)
    show "case labels of None \<Rightarrow> True | Some ls \<Rightarrow> list_all (\<lambda>i. i < length ls) (ids @ [i])"
      using lab li by (simp split: option.splits)
  qed
qed

subsection \<open>The loops on shapes that fit\<close>

lemma window_in_range:
  assumes "i \<in> set (centers self frames)" and "j < clips self"
  shows "i - clips self div 2 + j < length frames"
  using assms by (auto simp: centers_def)

lemma window_shaped:
  assumes "all_shaped shp frames" and "i \<in> set (centers self frames)"
  shows "all_shaped shp (map (\<lambda>j. frames ! (i - clips self div 2 + j)) [0..<clips self])"
  using assms(1) window_in_range[OF assms(2)]
  by (auto simp: all_shaped_def list_all_iff)

lemma initial_sr_ok:
  assumes "all_shaped [n, ch, h, w] frames" and "frames \<noteq> []"
  shows "initial_sr self frames = Inr (torch_zeros [n, ch, h * scale self, w * scale self])"
proof -
  have "shape (frames ! 0) = [n, ch, h, w]"
    using assms by (cases frames) (simp_all add: all_shaped_def)
  then show ?thesis
    using assms(2) by (simp add: initial_sr_def py_index_def upsample_def zeros_like_def)
qed

lemma forward_in_loop:
  assumes self: "self = RLSP_init sc ch cl layers filters"
    and sc: "1 \<le> sc" and cl: "1 \<le> cl"
    and frames: "all_shaped [n, ch, h, w] frames"
    and i: "i \<in> set (centers self frames)"
    and sr: "shape sr = [n, ch, h * sc, w * sc]"
    and hid: "hidden_shaped [n, filters, h, w] hidden_arg"
  shows "\<exists>g out nxt. lr_group self frames i = Inr g
           \<and> RlspNet_forward (rlsp self) g sr hidden_arg = Inr (out, nxt)
           \<and> shape out = [n, ch, h * sc, w * sc] \<and> shape nxt = [n, filters, h, w]"
proof -
  let ?g = "map (\<lambda>j. frames ! (i - clips self div 2 + j)) [0..<clips self]"
  have g: "lr_group self frames i = Inr ?g"
    using i by (rule lr_group_window)
  have gs: "all_shaped [n, ch, h, w] ?g"
    using frames i by (rule window_shaped)
  have len: "length ?g = cl"
    by (simp add: self RLSP_init_def)
  have net: "rlsp self = RlspNet_init sc ch cl layers filters"
    by (simp add: self RLSP_init_def)
  show ?thesis
    using g RlspNet_forward_ok[OF sc cl len gs sr hid, of layers]
    by (simp add: net)
qed

lemma train_body_ok:
  assumes self: "self = RLSP_init sc ch cl layers filters"
    and sc: "1 \<le> sc" and cl: "1 \<le> cl"
    and frames: "all_shaped [n, ch, h, w] frames"
    and labels: "all_shaped [n, ch, h * sc, w * sc] labels"
    and i: "i \<in> set (centers self frames)" and il: "i < length labels"
    and sr: "shape (last_sr st) = [n, ch, h * sc, w * sc]"
    and hid: "hidden_shaped [n, filters, h, w] (last_hidden st)"
  shows "\<exists>st'. train_body self mse frames labels i st = Inr st'
           \<and> shape (last_sr st') = [n, ch, h * sc, w * sc]
           \<and> hidden_shaped [n, filters, h, w] (last_hidden st')"
proof -
  from forward_in_loop[OF self sc cl frames i sr hid]
  obtain g out nxt where g: "lr_group self frames i = Inr g"
    and fw: "RlspNet_forward (rlsp self) g (last_sr st) (last_hidden st) = Inr (out, nxt)"
    and out: "shape out = [n, ch, h * sc, w * sc]" and nxt: "shape nxt = [n, filters, h, w]"
    by blast
  have lab: "shape (labels ! i) = [n, ch, h * sc, w * sc]"
    using labels il by (simp add: all_shaped_def list_all_length)
  show ?thesis
    using il by (simp add: train_body_def g fw py_index_def mse_loss_def out lab broadcast_same
        detach_def hidden_shaped_def nxt)
qed

lemma train_foldM_total:
  assumes self: "self = RLSP_init sc ch cl layers filters"
    and sc: "1 \<le> sc" and cl: "1 \<le> cl"
    and frames: "all_shaped [n, ch, h, w] frames"
    and labels: "all_shaped [n, ch, h * sc, w * sc] labels"
    and ids: "list_all (\<lambda>i. i \<in> set (centers self frames) \<and> i < length labels) ids"
    and sr: "shape (last_sr st) = [n, ch, h * sc, w * sc]"
    and hid: "hidden_shaped [n, filters, h, w] (last_hidden st)"
  shows "\<exists>st'. foldM (train_body self mse frames labels) ids st = Inr st'"
  using ids sr hid
proof (induction ids arbitrary: st)
  case Nil
  show ?case by simp
next
  case (Cons i ids)
  from Cons.prems(1) have i: "i \<in> set (centers self frames)" and il: "i < length labels"
    and rest: "list_all (\<lambda>i. i \<in> set (centers self frames) \<and> i < length labels) ids"
    by simp_all
  from train_body_ok[OF self sc cl frames labels i il Cons.prems(2,3), of mse]
  obtain st1 where st1: "train_body self mse frames labels i st = Inr st1"
    and sr1: "shape (last_sr st1) = [n, ch, h * sc, w * sc]"
    and hid1: "hidden_shaped [n, filters, h, w] (last_hidden st1)"
    by blast
  from Cons.IH[OF rest sr1 hid1] show ?case
    by (simp add: st1)
qed



subsection \<open>The two steps as a whole\<close>

lemma foldl_accumulate_Scalar: "foldl accumulate (Scalar a) xs = Scalar (a + sum_list xs)"
  by (induction xs arbitrary: a) (simp_all add: add.assoc)

lemma foldl_accumulate: "xs \<noteq> [] \<Longrightarrow> foldl accumulate PyInt0 xs = Scalar (sum_list xs)"
  by (cases xs) (simp_all add: foldl_accumulate_Scalar)

lemma centers_nth:
  "k < length (centers self frames) \<Longrightarrow> centers self frames ! k = clips self div 2 + k"
  by (simp add: centers_def)

lemma length_centers: "length (centers self frames) = length frames - 2 * (clips self div 2)"
  by (simp add: centers_def)

lemma centers_below: "i \<in> set (centers self frames) \<Longrightarrow> i < length frames"
  by (auto simp: centers_def)

lemma run_of_length: "run_of t self frames ids z outs \<Longrightarrow> length outs = length ids"
  by (simp add: run_of_def)

lemma train_loop_ok:
  assumes self: "self = RLSP_init sc ch cl layers filters"
    and sc: "1 \<le> sc" and cl: "1 \<le> cl"
    and frames: "all_shaped [n, ch, h, w] frames"
    and labels: "all_shaped [n, ch, h * sc, w * sc] labels"
    and len: "length labels = length frames"
    and ne: "frames \<noteq> []"
  shows "\<exists>st outs. train_loop self mse frames labels = Inr st
           \<and> run_of True self frames (centers self frames) (torch_zeros [n, ch, h * sc, w * sc]) outs
           \<and> total_loss st = foldl accumulate PyInt0
                 (map (\<lambda>k. mse (fst (outs ! k)) (labels ! (cl div 2 + k))) [0..<length outs])
           \<and> image_loss st = total_loss st"
proof -
  let ?z = "torch_zeros [n, ch, h * sc, w * sc]"
  let ?st0 = "\<lparr>last_sr = ?z, last_hidden = None, total_loss = PyInt0, image_loss = PyInt0\<rparr>"
  have scale: "scale self = sc" and clips: "clips self = cl"
    by (simp_all add: self RLSP_init_def)
  have z: "initial_sr self frames = Inr ?z"
    using initial_sr_ok[OF frames ne, of self] by (simp add: scale)
  have ids: "list_all (\<lambda>i. i \<in> set (centers self frames) \<and> i < length labels) (centers self frames)"
    using centers_below[of _ self frames] by (simp add: list_all_iff len)
  have "\<exists>st. foldM (train_body self mse frames labels) (centers self frames) ?st0 = Inr st"
    using self sc cl frames labels ids
    by (rule train_foldM_total) (simp_all add: torch_zeros_def hidden_shaped_def)
  then obtain st where st: "foldM (train_body self mse frames labels) (centers self frames) ?st0 = Inr st"
    by blast
  from train_foldM_run[OF st] obtain outs
    where run: "run_of True self frames (centers self frames) ?z outs"
      and tot: "total_loss st = foldl accumulate PyInt0
                 (map (\<lambda>k. mse (fst (outs ! k)) (labels ! (centers self frames ! k)))
                    [0..<length (centers self frames)])"
      and img: "image_loss st = total_loss st"
    by blast
  have lo: "length outs = length (centers self frames)"
    using run by (rule run_of_length)
  have "map (\<lambda>k. mse (fst (outs ! k)) (labels ! (centers self frames ! k))) [0..<length (centers self frames)]
      = map (\<lambda>k. mse (fst (outs ! k)) (labels ! (cl div 2 + k))) [0..<length outs]"
    unfolding lo by (rule map_cong) (simp_all add: centers_nth clips)
  then have tot': "total_loss st = foldl accumulate PyInt0
      (map (\<lambda>k. mse (fst (outs ! k)) (labels ! (cl div 2 + k))) [0..<length outs])"
    using tot by simp
  have "train_loop self mse frames labels = Inr st"
    by (simp add: train_loop_def z st)
  then show ?thesis
    using run tot' img by blast
qed

lemma eval_loop_run:
  assumes "eval_loop self metric frames labels = Inr st"
  shows "\<exists>z outs. initial_sr self frames = Inr z
           \<and> run_of False self frames (centers self frames) z outs
           \<and> last_sr st = feedback_in z outs (length outs)
           \<and> last_hidden st = None
           \<and> predicts st = map (\<lambda>out. detach (fst out)) outs
           \<and> psnr st = (case labels of None \<Rightarrow> []
                         | Some ls \<Rightarrow> map (\<lambda>k. metric (fst (outs ! k)) (ls ! (clips self div 2 + k)))
                                         [0..<length outs])
           \<and> idx st = (if centers self frames = [] then 0 else last (centers self frames))
           \<and> (case labels of None \<Rightarrow> True
               | Some ls \<Rightarrow> list_all (\<lambda>i. i < length ls) (centers self frames))"
proof -
  from assms obtain z where z: "initial_sr self frames = Inr z"
    and st: "foldM (eval_body self metric frames labels) (centers self frames)
               \<lparr>last_sr = z, last_hidden = None, psnr = [], predicts = [], idx = 0\<rparr> = Inr st"
    by (auto simp: eval_loop_def ebind_Inr_iff)
  from eval_foldM_run[OF st] obtain outs
    where run: "run_of False self frames (centers self frames) z outs"
      and sr: "last_sr st = feedback_in z outs (length (centers self frames))"
      and hid: "last_hidden st = None"
      and preds: "predicts st = map (\<lambda>out. detach (fst out)) outs"
      and ps: "psnr st = (case labels of None \<Rightarrow> []
                 | Some ls \<Rightarrow> map (\<lambda>k. metric (fst (outs ! k)) (ls ! (centers self frames ! k)))
                                 [0..<length (centers self frames)])"
      and ix: "idx st = (if centers self frames = [] then 0 else last (centers self frames))"
      and lab: "(case labels of None \<Rightarrow> True
                 | Some ls \<Rightarrow> list_all (\<lambda>i. i < length ls) (centers self frames))"
    by blast
  have lo: "length outs = length (centers self frames)"
    using run by (rule run_of_length)
  have vals: "map (\<lambda>k. metric (fst (outs ! k)) (ls ! (centers self frames ! k)))
                [0..<length (centers self frames)]
      = map (\<lambda>k. metric (fst (outs ! k)) (ls ! (clips self div 2 + k))) [0..<length outs]" for ls
    unfolding lo by (rule map_cong) (simp_all add: centers_nth)
  have ps': "psnr st = (case labels of None \<Rightarrow> []
                 | Some ls \<Rightarrow> map (\<lambda>k. metric (fst (outs ! k)) (ls ! (clips self div 2 + k)))
                                 [0..<length outs])"
    using ps by (simp add: vals split: option.splits)
  show ?thesis
    using z run sr hid preds ps' ix lab
    by (intro exI[of _ z] exI[of _ outs]) (simp add: lo)
qed


lemma eval_Inr:
  assumes "eval self metric has_writer frames labels kwargs = (Inr (preds, metrics), written)"
  shows "\<exists>st. eval_loop self metric frames labels = Inr st \<and> preds = predicts st
           \<and> metrics = [(''psnr'', np_mean (psnr st))]"
  using assms unfolding eval_def
  by (auto simp: Let_def split: sum.splits prod.splits)


lemma train_Inr:
  assumes "train self mse adam frames labels learning_rate = (Inr losses, adam')"
  shows "\<exists>st tloss iloss. train_loop self mse frames labels = Inr st
           \<and> total_loss st = Scalar tloss \<and> image_loss st = Scalar iloss
           \<and> losses = [(''total_loss'', tloss / real (length frames)),
                        (''image_loss'', iloss / real (length frames))]"
  using assms unfolding train_def
  by (auto simp: Let_def split: sum.splits accumulator.splits)

lemma initial_sr_Inr:
  assumes "initial_sr self frames = Inr z"
  shows "frames \<noteq> [] \<and> (case upsample (frames ! 0) (scale self) of
                           Inl e \<Rightarrow> False | Inr up \<Rightarrow> z = torch_zeros (shape up))"
  using assms unfolding initial_sr_def
  by (auto simp: ebind_Inr_iff py_index_def zeros_like_def split: if_splits)

lemma run_of_nth:
  assumes "run_of threaded self frames (centers self frames) z outs" and "k < length outs"
  shows "ebind (lr_group self frames (clips self div 2 + k)) (\<lambda>group.
           RlspNet_forward (rlsp self) group
             (if k = 0 then z else detach (fst (outs ! (k - 1))))
             (hidden_in threaded outs k)) = Inr (outs ! k)"
proof -
  have len: "length outs = length (centers self frames)"
    using assms(1) by (rule run_of_length)
  have "ebind (lr_group self frames (centers self frames ! k)) (\<lambda>group.
           RlspNet_forward (rlsp self) group (feedback_in z outs k)
             (hidden_in threaded outs k)) = Inr (outs ! k)"
    using assms len by (simp add: run_of_def list_all_iff)
  then show ?thesis
    using assms(2) len by (simp add: centers_nth feedback_in_def)
qed

lemma train_optimizer:
  "param_groups (snd (train self mse adam frames labels learning_rate))
     = param_groups (set_learning_rate learning_rate adam)
   \<and> (\<exists>new. calls (snd (train self mse adam frames labels learning_rate)) = calls adam @ new
         \<and> (\<forall>groups. Step groups \<in> set new \<longrightarrow>
               groups = param_groups (set_learning_rate learning_rate adam)))"
proof -
  let ?adam1 = "set_learning_rate learning_rate adam"
  have c: "calls ?adam1 = calls adam"
    by (simp add: set_learning_rate_def split: option.split)
  show ?thesis
  proof (cases "train_loop self mse frames labels")
    case (Inl e)
    then have "snd (train self mse adam frames labels learning_rate) = ?adam1"
      by (simp add: train_def)
    then show ?thesis
      using c by (intro conjI exI[of _ "[]"]) simp_all
  next
    case (Inr st)
    show ?thesis
    proof (cases "total_loss st")
      case PyInt0
      then have "snd (train self mse adam frames labels learning_rate)
          = ?adam1\<lparr>calls := calls adam @ [ZeroGrad]\<rparr>"
        using Inr by (simp add: train_def c)
      then show ?thesis
        by (intro conjI exI[of _ "[ZeroGrad]"]) simp_all
    next
      case (Scalar tloss)
      then have "snd (train self mse adam frames labels learning_rate)
          = ?adam1\<lparr>calls := calls adam @ [ZeroGrad, Backward tloss, Step (param_groups ?adam1)]\<rparr>"
        using Inr by (simp add: train_def c Let_def split: accumulator.split)
      then show ?thesis
        by (intro conjI exI[of _ "[ZeroGrad, Backward tloss, Step (param_groups ?adam1)]"]) simp_all
    qed
  qed
qed

subsection \<open>The expressions a forward pass builds\<close>

lemma torch_cat_expr: "torch_cat ts = Inr y \<Longrightarrow> expr y = Cat (map expr ts)"
  by (auto simp: torch_cat_def split: list.splits if_splits)

lemma conv2d_expr: "conv2d c x = Inr y \<Longrightarrow> expr y = Conv (tag c) (expr x)"
  by (auto simp: conv2d_def split: if_splits)

lemma sequential_expr: "foldM conv2d convs x = Inr y \<Longrightarrow> expr y = stack_expr convs (expr x)"
proof (induction convs arbitrary: x)
  case Nil
  then show ?case by (simp add: stack_expr_def)
next
  case (Cons c convs)
  from Cons.prems obtain x1 where x1: "conv2d c x = Inr x1" and rest: "foldM conv2d convs x1 = Inr y"
    by (auto simp: ebind_Inr_iff)
  from Cons.IH[OF rest] conv2d_expr[OF x1] show ?case
    by (simp add: stack_expr_def)
qed

lemma RLSPCell_forward_expr:
  assumes "RLSPCell_forward c lr fb hid = Inr (res, nxt)"
  shows "expr res = Conv (tag (exit_conv c)) (stack_expr (cell c) (Cat [Cat (map expr lr), expr hid, expr fb]))
       \<and> expr nxt = Conv (tag (hidden_conv c)) (stack_expr (cell c) (Cat [Cat (map expr lr), expr hid, expr fb]))"
proof -
  from assms obtain lrc inputs x where lrc: "torch_cat lr = Inr lrc"
    and inputs: "torch_cat [lrc, hid, fb] = Inr inputs"
    and x: "foldM conv2d (cell c) inputs = Inr x"
    and nxt: "conv2d (hidden_conv c) x = Inr nxt"
    and res: "conv2d (exit_conv c) x = Inr res"
    unfolding RLSPCell_forward_def sequential_def by (auto simp: ebind_Inr_iff)
  have "expr inputs = Cat [Cat (map expr lr), expr hid, expr fb]"
    using torch_cat_expr[OF inputs] torch_cat_expr[OF lrc] by simp
  then show ?thesis
    using sequential_expr[OF x] conv2d_expr[OF nxt] conv2d_expr[OF res] by simp
qed

lemma RlspNet_forward_expr:
  assumes "RlspNet_forward net lr sr hidden_arg = Inr (out, nxt)"
  shows "expr nxt = Conv (tag (hidden_conv (rlspcell net)))
                      (stack_expr (cell (rlspcell net)) (cell_input net lr sr hidden_arg))
       \<and> expr out = Add (Interpolate (net_s net) (expr (lr ! (net_d net div 2))))
                      (PixelShuffle (net_s net)
                         (Conv (tag (exit_conv (rlspcell net)))
                            (stack_expr (cell (rlspcell net)) (cell_input net lr sr hidden_arg))))"
proof -
  from assms obtain h0 mid center shuffled res ps
    where h0: "(case hidden_arg of None \<Rightarrow> initial_hidden net lr | Some h \<Rightarrow> Inr h) = Inr h0"
      and mid: "py_index lr (net_d net div 2) = Inr mid"
      and center: "interpolate mid (net_s net) = Inr center"
      and shuffled: "space_to_depth (shuffle net) sr = Inr shuffled"
      and cellrun: "RLSPCell_forward (rlspcell net) lr (detach shuffled) h0 = Inr (res, nxt)"
      and ps: "pixel_shuffle res (net_s net) = Inr ps"
      and out: "add center ps = Inr out"
    unfolding RlspNet_forward_def by (auto simp: ebind_Inr_iff)
  have e_h0: "expr h0 = hidden_expr hidden_arg"
    using h0
    by (cases hidden_arg)
       (auto simp: hidden_expr_def initial_hidden_def ebind_Inr_iff torch_zeros_def split: if_splits)
  have e_fb: "expr (detach shuffled) = Detach (SpaceToDepth (shuffle net) (expr sr))"
    using shuffled by (auto simp: space_to_depth_def detach_def split: list.splits if_splits)
  have e_mid: "mid = lr ! (net_d net div 2)"
    using mid by (auto simp: py_index_def split: if_splits)
  have e_center: "expr center = Interpolate (net_s net) (expr mid)"
    using center by (auto simp: interpolate_def split: if_splits)
  have e_ps: "expr ps = PixelShuffle (net_s net) (expr res)"
    using ps by (auto simp: pixel_shuffle_def Let_def split: if_splits)
  have e_out: "expr out = Add (expr center) (expr ps)"
    using out by (auto simp: add_def split: option.splits)
  from RLSPCell_forward_expr[OF cellrun] show ?thesis
    by (simp add: e_out e_center e_ps e_mid e_h0 e_fb cell_input_def)
qed

subsection \<open>The example inputs, evaluated\<close>

lemmas model_defs = example_model_def even_model_def example_frame_def example_label_def
  example_adam_def example_frames_def example_labels_def
  RLSP_init_def RlspNet_init_def RLSPCell_init_def

lemmas run_defs = eval_def eval_loop_def eval_body_def train_def train_loop_def train_body_def
  initial_sr_def centers_def lr_group_def py_index_def write_images_def np_mean_def
  set_learning_rate_def RlspNet_forward_def initial_hidden_def RLSPCell_forward_def sequential_def

lemmas torch_defs = torch_cat_def torch_zeros_def zeros_like_def detach_def clamp_def
  interpolate_def pixel_shuffle_def space_to_depth_def upsample_def conv2d_def add_def
  mse_loss_def broadcast_def

lemmas value_defs = first_input_def first_sr_def first_hidden_def second_input_def
  second_sr_def second_hidden_def

lemma example_first_call:
  "RlspNet_forward (rlsp example_model) [example_frame 0, example_frame 1, example_frame 2]
     (torch_zeros [1, 1, 8, 8]) None = Inr (first_sr, first_hidden)"
  by (simp add: model_defs run_defs torch_defs value_defs Let_def upt_rec power2_eq_square)

lemma example_second_call:
  "RlspNet_forward (rlsp example_model) [example_frame 1, example_frame 2, example_frame 3]
     (detach first_sr) hidden_arg
   = Inr (second_sr (hidden_expr hidden_arg), second_hidden (hidden_expr hidden_arg))"
  if "hidden_shaped [1, 4, 4, 4] hidden_arg"
  using that
  by (cases hidden_arg)
     (simp_all add: model_defs run_defs torch_defs value_defs Let_def upt_rec power2_eq_square
        hidden_expr_def hidden_shaped_def)

lemma example_eval:
  "eval example_model (\<lambda>x y. 1) False example_frames labels Map.empty
   = (Inr ([detach first_sr, detach (second_sr Zeros)],
           [(''psnr'', case labels of None \<Rightarrow> NaN | Some ls \<Rightarrow> Num 1)]), [])"
  if "case labels of None \<Rightarrow> True | Some ls \<Rightarrow> ls = example_labels"
  using that
  by (cases labels)
     (simp_all add: model_defs run_defs torch_defs value_defs Let_def upt_rec power2_eq_square)

lemma example_train:
  "train example_model (\<lambda>x y. 1) example_adam example_frames example_labels learning_rate
   = (Inr [(''total_loss'', 1 / 2), (''image_loss'', 1 / 2)],
      \<lparr>param_groups = param_groups (set_learning_rate learning_rate example_adam),
       calls = [ZeroGrad, Backward 2, Step (param_groups (set_learning_rate learning_rate example_adam))]\<rparr>)"
  by (cases learning_rate)
     (simp_all add: model_defs run_defs torch_defs Let_def upt_rec power2_eq_square)

subsection \<open>What the two steps return\<close>

lemma detach_inj: "detach a = detach b \<Longrightarrow> a = b"
  by (cases a, cases b) (simp add: detach_def)


lemma example_metric_values:
  "example_metric first_sr (example_label 1) = 119"
  "example_metric first_sr (example_label (Suc 0)) = 119"
  "example_metric (second_sr Zeros) (example_label 2) = 142"
  "example_metric (second_sr (expr first_hidden)) (example_label 2) = 154"
  by (simp_all add: example_metric_def value_defs example_label_def)


lemma example_train_mse:
  "train example_model mse example_adam example_frames example_labels None
   = (Inr [(''total_loss'', (mse first_sr (example_label 1)
                             + mse (second_sr (expr first_hidden)) (example_label 2)) / 4),
           (''image_loss'', (mse first_sr (example_label 1)
                             + mse (second_sr (expr first_hidden)) (example_label 2)) / 4)],
      \<lparr>param_groups = [1 / 10000],
       calls = [ZeroGrad,
                Backward (mse first_sr (example_label 1)
                          + mse (second_sr (expr first_hidden)) (example_label 2)),
                Step [1 / 10000]]\<rparr>)"
  by (simp add: model_defs run_defs torch_defs value_defs Let_def upt_rec power2_eq_square)

lemma example_train_body_second:
  "train_body example_model example_metric example_frames example_labels 2
     \<lparr>last_sr = detach first_sr, last_hidden = Some first_hidden,
      total_loss = Scalar 119, image_loss = Scalar 119\<rparr>
   = Inr \<lparr>last_sr = detach (second_sr (expr first_hidden)),
          last_hidden = Some (second_hidden (expr first_hidden)),
          total_loss = Scalar 273, image_loss = Scalar 273\<rparr>"
  by (simp add: model_defs run_defs torch_defs value_defs Let_def upt_rec power2_eq_square
      example_metric_def)

lemma example_eval_body_second:
  "eval_body example_model example_metric example_frames (Some example_labels) 2
     \<lparr>last_sr = detach first_sr, last_hidden = None, psnr = [119],
      predicts = [detach first_sr], idx = 1\<rparr>
   = Inr \<lparr>last_sr = detach (second_sr Zeros), last_hidden = None, psnr = [119, 142],
          predicts = [detach first_sr, detach (second_sr Zeros)], idx = 2\<rparr>"
  by (simp add: model_defs run_defs torch_defs value_defs Let_def upt_rec power2_eq_square
      example_metric_def)

lemma train_Inr_calls:
  assumes "train self mse adam frames labels learning_rate = (Inr losses, adam')"
  shows "\<exists>st tloss. train_loop self mse frames labels = Inr st
           \<and> total_loss st = Scalar tloss
           \<and> calls adam' = calls adam @ [ZeroGrad, Backward tloss,
                 Step (param_groups (set_learning_rate learning_rate adam))]"
proof -
  have c: "calls (set_learning_rate learning_rate adam) = calls adam"
    by (simp add: set_learning_rate_def split: option.split)
  show ?thesis
    using assms unfolding train_def
    by (auto simp: Let_def c split: sum.splits accumulator.splits)
qed

lemma train_loop_run_losses:
  assumes "train_loop self mse frames labels = Inr st"
  shows "\<exists>z outs. initial_sr self frames = Inr z
           \<and> run_of True self frames (centers self frames) z outs
           \<and> total_loss st = foldl accumulate PyInt0
                 (map (\<lambda>k. mse (fst (outs ! k)) (labels ! (clips self div 2 + k))) [0..<length outs])
           \<and> image_loss st = total_loss st"
proof -
  from assms obtain z where z: "initial_sr self frames = Inr z"
    and st: "foldM (train_body self mse frames labels) (centers self frames)
               \<lparr>last_sr = z, last_hidden = None, total_loss = PyInt0, image_loss = PyInt0\<rparr> = Inr st"
    by (auto simp: train_loop_def ebind_Inr_iff)
  from train_foldM_run[OF st] obtain outs
    where run: "run_of True self frames (centers self frames) z outs"
      and tot: "total_loss st = foldl accumulate PyInt0
                 (map (\<lambda>k. mse (fst (outs ! k)) (labels ! (centers self frames ! k)))
                    [0..<length (centers self frames)])"
      and img: "image_loss st = total_loss st"
    by blast
  have lo: "length outs = length (centers self frames)"
    using run by (rule run_of_length)
  have "map (\<lambda>k. mse (fst (outs ! k)) (labels ! (centers self frames ! k)))
          [0..<length (centers self frames)]
      = map (\<lambda>k. mse (fst (outs ! k)) (labels ! (clips self div 2 + k))) [0..<length outs]"
    unfolding lo by (rule map_cong) (simp_all add: centers_nth)
  then have tot': "total_loss st = foldl accumulate PyInt0
      (map (\<lambda>k. mse (fst (outs ! k)) (labels ! (clips self div 2 + k))) [0..<length outs])"
    using tot by simp
  show ?thesis
    by (intro exI[of _ z] exI[of _ outs] conjI) (rule z run tot' img)+
qed

lemma foldl_accumulate_Scalar_iff:
  "foldl accumulate PyInt0 xs = Scalar t \<Longrightarrow> xs \<noteq> [] \<and> t = sum_list xs"
  by (cases xs) (simp_all add: foldl_accumulate_Scalar)

lemma list_of_two: "length xs = 2 \<Longrightarrow> xs = [xs ! 0, xs ! 1]"
  by (cases xs; cases "tl xs") auto


section \<open>The properties\<close>

text \<open>
  C5. A forward pass of \<^verbatim>\<open>RlspNet\<close> on a window of \<open>depth\<close> low-resolution frames of
  shape \<open>[n, c, h, w]\<close>, with a feedback frame of the upscaled shape and a hidden state
  that is absent or of shape \<open>[n, filters, h, w]\<close>, returns: the super-resolved frame has
  shape \<open>[n, c, scale * h, scale * w]\<close> and is the interpolated centre frame plus a
  pixel-shuffled residual, and the next hidden state has shape \<open>[n, filters, h, w]\<close>.
\<close>

theorem RlspNet_forward_shapes:
  assumes "1 \<le> sc" and "1 \<le> depth" and "length lr = depth"
    and "all_shaped [n, c, h, w] lr"
    and "shape sr = [n, c, sc * h, sc * w]"
    and "hidden_shaped [n, filters, h, w] hidden_arg"
  shows "\<exists>out nxt res. RlspNet_forward (RlspNet_init sc c depth layers filters) lr sr hidden_arg
                          = Inr (out, nxt)
           \<and> shape out = [n, c, sc * h, sc * w]
           \<and> expr out = Add (Interpolate sc (expr (lr ! (depth div 2)))) (PixelShuffle sc res)
           \<and> shape nxt = [n, filters, h, w]"
proof -
  have sr: "shape sr = [n, c, h * sc, w * sc]"
    using assms(5) by (simp add: mult.commute)
  show ?thesis
    using RlspNet_forward_ok[OF assms(1-4) sr assms(6), of layers]
    by (simp add: mult.commute)
qed

theorem RlspNet_forward_shapes_witness:
  "\<exists>out nxt res.
     RlspNet_forward (RlspNet_init 2 1 3 2 4) [example_frame 0, example_frame 1, example_frame 2]
       (torch_zeros [1, 1, 8, 8]) None = Inr (out, nxt)
     \<and> shape out = [1, 1, 8, 8]
     \<and> expr out = Add (Interpolate 2 (Input 1)) (PixelShuffle 2 res)
     \<and> shape nxt = [1, 4, 4, 4]"
  using RlspNet_forward_shapes[of 2 3 "[example_frame 0, example_frame 1, example_frame 2]"
      1 1 4 4 "torch_zeros [1, 1, 8, 8]" 4 None 2]
  by (simp add: all_shaped_def hidden_shaped_def example_frame_def torch_zeros_def)

text \<open>
  C2, as stated: every training call with at least \<open>clips\<close> frames computes the losses,
  makes one backward pass and one optimizer step. It fails for a model with windows of 2
  frames called with 2 frames: no centre index is processed, \<^verbatim>\<open>total_loss\<close> is still
  the integer 0 and \<^verbatim>\<open>total_loss.backward()\<close> raises.
\<close>

theorem train_without_window_counterexample:
  "clips even_model \<le> length [example_frame 0, example_frame 1] \<and>
   fst (train even_model (\<lambda>x y. 1) example_adam [example_frame 0, example_frame 1]
          [example_label 0, example_label 1] None) = Inl AttributeError"
  by (simp add: even_model_def RLSP_init_def train_def train_loop_def initial_sr_def py_index_def
      upsample_def example_frame_def centers_def set_learning_rate_def)

text \<open>
  C2, amended: for every training call on shapes that fit, with \<open>n\<close> frames and
  \<open>2 * (clips div 2) < n\<close> (which is \<open>clips \<le> n\<close> for odd \<open>clips\<close>), the network
  runs once for each centre index \<open>i\<close> of \<open>[clips div 2, n - clips div 2)\<close>, as a
  threaded run; \<open>total\<close> is the sum of the mean squared errors between the frame predicted
  at \<open>i\<close> and \<open>labels[i]\<close>; the optimizer receives \<^verbatim>\<open>zero_grad\<close>, exactly one
  \<^verbatim>\<open>backward\<close>, on \<open>total\<close>, and exactly one \<^verbatim>\<open>step\<close>; and both losses returned
  are \<open>total / n\<close>.
\<close>

theorem train_loss_and_single_step:
  assumes "1 \<le> sc" and "1 \<le> cl"
    and "all_shaped [n, ch, h, w] frames"
    and "all_shaped [n, ch, h * sc, w * sc] labels"
    and "length labels = length frames"
    and "2 * (cl div 2) < length frames"
  shows "\<exists>outs total.
           run_of True (RLSP_init sc ch cl layers filters) frames
             [cl div 2 ..< length frames - cl div 2] (torch_zeros [n, ch, h * sc, w * sc]) outs
         \<and> total = sum_list (map (\<lambda>k. mse (fst (outs ! k)) (labels ! (cl div 2 + k)))
                               [0..<length frames - 2 * (cl div 2)])
         \<and> train (RLSP_init sc ch cl layers filters) mse adam frames labels learning_rate
             = (Inr [(''total_loss'', total / real (length frames)),
                     (''image_loss'', total / real (length frames))],
                \<lparr>param_groups = param_groups (set_learning_rate learning_rate adam),
                 calls = calls adam @ [ZeroGrad, Backward total,
                           Step (param_groups (set_learning_rate learning_rate adam))]\<rparr>)"
proof -
  let ?self = "RLSP_init sc ch cl layers filters"
  have ne: "frames \<noteq> []" using assms(6) by auto
  from train_loop_ok[OF refl assms(1-5) ne, of layers filters mse]
  obtain st outs where loop: "train_loop ?self mse frames labels = Inr st"
    and run: "run_of True ?self frames (centers ?self frames) (torch_zeros [n, ch, h * sc, w * sc]) outs"
    and tot: "total_loss st = foldl accumulate PyInt0
                 (map (\<lambda>k. mse (fst (outs ! k)) (labels ! (cl div 2 + k))) [0..<length outs])"
    and img: "image_loss st = total_loss st"
    by blast
  have cs: "centers ?self frames = [cl div 2 ..< length frames - cl div 2]"
    by (simp add: centers_def RLSP_init_def)
  have lo: "length outs = length frames - 2 * (cl div 2)"
    using run_of_length[OF run] by (simp add: cs)
  have pos: "0 < length outs" using lo assms(6) by simp
  let ?total = "sum_list (map (\<lambda>k. mse (fst (outs ! k)) (labels ! (cl div 2 + k)))
                               [0..<length frames - 2 * (cl div 2)])"
  have tot': "total_loss st = Scalar ?total"
    unfolding tot using pos by (subst foldl_accumulate) (simp_all add: lo)
  have calls_eq: "calls (set_learning_rate learning_rate adam) = calls adam"
    by (simp add: set_learning_rate_def split: option.split)
  have "train ?self mse adam frames labels learning_rate
      = (Inr [(''total_loss'', ?total / real (length frames)),
              (''image_loss'', ?total / real (length frames))],
         \<lparr>param_groups = param_groups (set_learning_rate learning_rate adam),
          calls = calls adam @ [ZeroGrad, Backward ?total,
                    Step (param_groups (set_learning_rate learning_rate adam))]\<rparr>)"
    by (simp add: train_def loop tot' img calls_eq Let_def)
  then show ?thesis
    using run cs by auto
qed

theorem train_loss_and_single_step_witness:
  "train example_model (\<lambda>x y. 1) example_adam
     [example_frame 0, example_frame 1, example_frame 2, example_frame 3]
     [example_label 0, example_label 1, example_label 2, example_label 3] None
   = (Inr [(''total_loss'', 1 / 2), (''image_loss'', 1 / 2)],
      \<lparr>param_groups = [1 / 10000], calls = [ZeroGrad, Backward 2, Step [1 / 10000]]\<rparr>)"
  using train_loss_and_single_step[where sc = 2 and cl = 3 and n = 1 and ch = 1 and h = 4 and w = 4
      and frames = "[example_frame 0, example_frame 1, example_frame 2, example_frame 3]"
      and labels = "[example_label 0, example_label 1, example_label 2, example_label 3]"
      and layers = 2 and filters = 4 and mse = "\<lambda>x y. 1" and adam = example_adam
      and learning_rate = None]
  by (auto simp: all_shaped_def example_frame_def example_label_def example_model_def
      example_adam_def set_learning_rate_def)



text \<open>
  C10. Whenever an evaluation call with \<open>n\<close> frames returns, the list of predictions
  has \<open>max(0, n - 2 * (clips div 2))\<close> entries; with \<open>n < clips\<close> the list is empty and
  the \<^verbatim>\<open>'psnr'\<close> metric is the mean of the empty list, which \<^verbatim>\<open>np.mean\<close> gives as
  not-a-number.
\<close>

theorem eval_predictions_count:
  assumes "eval self metric has_writer frames labels kwargs = (Inr (preds, metrics), written)"
  shows "int (length preds) = max 0 (int (length frames) - 2 * (int (clips self) div 2))
       \<and> (length frames < clips self \<longrightarrow> preds = [] \<and> metrics = [(''psnr'', NaN)])"
proof -
  from eval_Inr[OF assms] obtain st where loop: "eval_loop self metric frames labels = Inr st"
    and preds: "preds = predicts st" and metrics: "metrics = [(''psnr'', np_mean (psnr st))]"
    by blast
  from eval_loop_run[OF loop] obtain z outs
    where run: "run_of False self frames (centers self frames) z outs"
      and p: "predicts st = map (\<lambda>out. detach (fst out)) outs"
      and ps: "psnr st = (case labels of None \<Rightarrow> []
                         | Some ls \<Rightarrow> map (\<lambda>k. metric (fst (outs ! k)) (ls ! (clips self div 2 + k)))
                                         [0..<length outs])"
    by blast
  have lo: "length preds = length frames - 2 * (clips self div 2)"
    using run_of_length[OF run] by (simp add: preds p length_centers)
  have count: "int (length preds) = max 0 (int (length frames) - 2 * (int (clips self) div 2))"
    using lo by arith
  have "preds = [] \<and> metrics = [(''psnr'', NaN)]" if "length frames < clips self"
  proof -
    have "length outs = 0"
      using run_of_length[OF run] that by (simp add: length_centers)
    then show ?thesis
      by (simp add: preds p metrics ps np_mean_def split: option.split)
  qed
  with count show ?thesis by blast
qed

theorem eval_predictions_count_witness:
  "eval example_model (\<lambda>x y. 1) False [example_frame 0, example_frame 1]
     (Some [example_label 0, example_label 1]) Map.empty = (Inr ([], [(''psnr'', NaN)]), [])
   \<and> int (length ([] :: tensor list))
       = max 0 (int (length [example_frame 0, example_frame 1]) - 2 * (int (clips example_model) div 2))"
proof -
  have ev: "eval example_model (\<lambda>x y. 1) False [example_frame 0, example_frame 1]
     (Some [example_label 0, example_label 1]) Map.empty = (Inr ([], [(''psnr'', NaN)]), [])"
    by (simp add: example_model_def RLSP_init_def eval_def eval_loop_def initial_sr_def py_index_def
        upsample_def example_frame_def centers_def write_images_def np_mean_def)
  from eval_predictions_count[OF ev] show ?thesis
    using ev by simp
qed

text \<open>
  C1. The specification asks that both steps pass the hidden state of one call to the next. The
  training step does (its runs are threaded, see C2); the evaluation step never assigns
  \<^verbatim>\<open>last_hidden\<close>, so every call gets an absent hidden state and starts from zeros.
  On the four example frames the second prediction of \<^verbatim>\<open>eval\<close> is the one computed
  with zeros in the place of the hidden state, not the one computed from the hidden state
  that the first call returned.
\<close>

theorem eval_does_not_thread_hidden_state:
  "fst (eval example_model (\<lambda>x y. 1) False example_frames None Map.empty)
     = Inr ([detach first_sr, detach (second_sr Zeros)], [(''psnr'', NaN)])
   \<and> RlspNet_forward (rlsp example_model) [example_frame 0, example_frame 1, example_frame 2]
       (torch_zeros [1, 1, 8, 8]) None = Inr (first_sr, first_hidden)
   \<and> RlspNet_forward (rlsp example_model) [example_frame 1, example_frame 2, example_frame 3]
       (detach first_sr) None = Inr (second_sr Zeros, second_hidden Zeros)
   \<and> RlspNet_forward (rlsp example_model) [example_frame 1, example_frame 2, example_frame 3]
       (detach first_sr) (Some first_hidden)
       = Inr (second_sr (expr first_hidden), second_hidden (expr first_hidden))
   \<and> second_sr Zeros \<noteq> second_sr (expr first_hidden)"
proof -
  have a: "fst (eval example_model (\<lambda>x y. 1) False example_frames None Map.empty)
     = Inr ([detach first_sr, detach (second_sr Zeros)], [(''psnr'', NaN)])"
    using example_eval[of None] by simp
  have b: "RlspNet_forward (rlsp example_model) [example_frame 1, example_frame 2, example_frame 3]
       (detach first_sr) None = Inr (second_sr Zeros, second_hidden Zeros)"
    using example_second_call[of None] by (simp add: hidden_shaped_def hidden_expr_def)
  have c: "RlspNet_forward (rlsp example_model) [example_frame 1, example_frame 2, example_frame 3]
       (detach first_sr) (Some first_hidden)
       = Inr (second_sr (expr first_hidden), second_hidden (expr first_hidden))"
    using example_second_call[of "Some first_hidden"]
    by (simp add: hidden_shaped_def hidden_expr_def first_hidden_def)
  have d: "second_sr Zeros \<noteq> second_sr (expr first_hidden)"
    by (simp add: second_sr_def second_input_def first_hidden_def)
  from a example_first_call b c d show ?thesis by blast
qed

text \<open>
  C7. The specification asks that an evaluation call without labels completes. With a summary
  writer registered for the model, the call on three example frames without labels writes
  the image \<^verbatim>\<open>'clean'\<close> and then raises \<^verbatim>\<open>TypeError\<close> at \<^verbatim>\<open>labels[i]\<close>.
\<close>

theorem eval_without_labels_raises:
  "eval example_model (\<lambda>x y. 1) True [example_frame 0, example_frame 1, example_frame 2] None
     [''epoch'' \<mapsto> 7]
   = (Inl TypeError, [(''clean'', clamp (detach first_sr), 7)])"
  by (simp add: model_defs run_defs torch_defs value_defs Let_def upt_rec power2_eq_square)

text \<open>
  C4, as stated: the window at centre \<open>i\<close> is
  \<open>frames[i - clips div 2], ..., frames[i + clips div 2]\<close>. With windows of 2 frames
  the window at centre 1 is frames 0 and 1, while the frames from \<open>1 - 1\<close> to
  \<open>1 + 1\<close> are three.
\<close>

theorem window_of_even_clips_counterexample:
  "1 \<in> set (centers even_model [example_frame 0, example_frame 1, example_frame 2])
   \<and> lr_group even_model [example_frame 0, example_frame 1, example_frame 2] 1
       = Inr [example_frame 0, example_frame 1]
   \<and> map (\<lambda>j. [example_frame 0, example_frame 1, example_frame 2] ! j)
         [1 - clips even_model div 2 ..< Suc (1 + clips even_model div 2)]
       = [example_frame 0, example_frame 1, example_frame 2]
   \<and> [example_frame 0, example_frame 1] \<noteq> [example_frame 0, example_frame 1, example_frame 2]"
  by (simp add: model_defs centers_def lr_group_def py_index_def upt_rec)

text \<open>
  C4, amended: at every centre index \<open>i\<close> the window is the \<open>clips\<close> consecutive frames
  \<open>frames[i - clips div 2 + j]\<close> for \<open>j\<close> in \<open>[0, clips)\<close>; for odd \<open>clips\<close> these are
  \<open>frames[i - clips div 2], ..., frames[i + clips div 2]\<close>, with frame \<open>i\<close> in the
  middle. A body of the training or of the evaluation loop that completes has passed this
  window to the network together with \<^verbatim>\<open>last_sr\<close> and \<^verbatim>\<open>last_hidden\<close>; the cell has
  worked on the concatenation of the window, the hidden state and the detached,
  space-to-depth rearranged \<^verbatim>\<open>last_sr\<close>; and the loop variables after the body are the
  ones before it updated with the two tensors this call returned.
\<close>

theorem window_and_cell_input:
  assumes "i \<in> set (centers self frames)"
  shows "\<exists>window. lr_group self frames i = Inr window
         \<and> window = map (\<lambda>j. frames ! (i - clips self div 2 + j)) [0..<clips self]
         \<and> length window = clips self
         \<and> (odd (clips self) \<longrightarrow>
              window = map (\<lambda>j. frames ! j) [i - clips self div 2 ..< Suc (i + clips self div 2)]
              \<and> window ! (clips self div 2) = frames ! i)
         \<and> (train_body self mse frames labels i st = Inr trained \<longrightarrow>
              (\<exists>sr nxt. RlspNet_forward (rlsp self) window (last_sr st) (last_hidden st) = Inr (sr, nxt)
                 \<and> expr nxt = Conv (tag (hidden_conv (rlspcell (rlsp self))))
                      (stack_expr (cell (rlspcell (rlsp self)))
                         (cell_input (rlsp self) window (last_sr st) (last_hidden st)))
                 \<and> expr sr = Add (Interpolate (net_s (rlsp self))
                                    (expr (window ! (net_d (rlsp self) div 2))))
                      (PixelShuffle (net_s (rlsp self))
                         (Conv (tag (exit_conv (rlspcell (rlsp self))))
                            (stack_expr (cell (rlspcell (rlsp self)))
                               (cell_input (rlsp self) window (last_sr st) (last_hidden st)))))
                 \<and> trained = st\<lparr>last_hidden := Some nxt, last_sr := detach sr,
                       total_loss := accumulate (total_loss st) (mse sr (labels ! i)),
                       image_loss := accumulate (image_loss st) (mse sr (labels ! i))\<rparr>))
         \<and> (eval_body self metric frames labels' i st' = Inr evaluated \<longrightarrow>
              (\<exists>sr nxt. RlspNet_forward (rlsp self) window (last_sr st') (last_hidden st') = Inr (sr, nxt)
                 \<and> expr nxt = Conv (tag (hidden_conv (rlspcell (rlsp self))))
                      (stack_expr (cell (rlspcell (rlsp self)))
                         (cell_input (rlsp self) window (last_sr st') (last_hidden st')))
                 \<and> expr sr = Add (Interpolate (net_s (rlsp self))
                                    (expr (window ! (net_d (rlsp self) div 2))))
                      (PixelShuffle (net_s (rlsp self))
                         (Conv (tag (exit_conv (rlspcell (rlsp self))))
                            (stack_expr (cell (rlspcell (rlsp self)))
                               (cell_input (rlsp self) window (last_sr st') (last_hidden st')))))
                 \<and> evaluated = st'\<lparr>idx := i, last_sr := detach sr,
                       predicts := predicts st' @ [detach sr],
                       psnr := psnr st' @ (case labels' of None \<Rightarrow> []
                                             | Some ls \<Rightarrow> [metric sr (ls ! i)])\<rparr>))"
proof -
  let ?c = "clips self"
  let ?w = "map (\<lambda>j. frames ! (i - ?c div 2 + j)) [0..<?c]"
  have g: "lr_group self frames i = Inr ?w"
    using assms by (rule lr_group_window)
  have lo: "?c div 2 \<le> i"
    using assms by (auto simp: centers_def)
  have odd_case: "?w = map (\<lambda>j. frames ! j) [i - ?c div 2 ..< Suc (i + ?c div 2)]
              \<and> ?w ! (?c div 2) = frames ! i" if "odd ?c"
  proof -
    from that obtain m where m: "?c = 2 * m + 1" by (auto elim: oddE)
    have d: "?c div 2 = m" by (simp add: m)
    have "Suc (i + m) = (2 * m + 1) + (i - m)"
      using lo d by simp
    then have "[i - m ..< Suc (i + m)] = map (\<lambda>j. j + (i - m)) [0..<2 * m + 1]"
      by (simp only: map_add_upt)
    then have "?w = map (\<lambda>j. frames ! j) [i - ?c div 2 ..< Suc (i + ?c div 2)]"
      unfolding d by (simp add: m o_def add.commute)
    moreover have "?w ! (?c div 2) = frames ! i"
    proof -
      have "?c div 2 < ?c" using that by (cases "?c") auto
      then have "?w ! (?c div 2) = frames ! (i - ?c div 2 + ?c div 2)"
        by (simp del: upt_Suc)
      then show ?thesis using lo by simp
    qed
    ultimately show ?thesis by blast
  qed
  have len: "length ?w = ?c" by simp
  from odd_case have o1: "odd ?c \<longrightarrow>
      ?w = map (\<lambda>j. frames ! j) [i - ?c div 2 ..< Suc (i + ?c div 2)] \<and> ?w ! (?c div 2) = frames ! i"
    by blast
  have t1: "train_body self mse frames labels i st = Inr trained \<longrightarrow>
      (\<exists>sr nxt. RlspNet_forward (rlsp self) ?w (last_sr st) (last_hidden st) = Inr (sr, nxt)
                 \<and> expr nxt = Conv (tag (hidden_conv (rlspcell (rlsp self))))
                      (stack_expr (cell (rlspcell (rlsp self)))
                         (cell_input (rlsp self) ?w (last_sr st) (last_hidden st)))
                 \<and> expr sr = Add (Interpolate (net_s (rlsp self))
                                    (expr (?w ! (net_d (rlsp self) div 2))))
                      (PixelShuffle (net_s (rlsp self))
                         (Conv (tag (exit_conv (rlspcell (rlsp self))))
                            (stack_expr (cell (rlspcell (rlsp self)))
                               (cell_input (rlsp self) ?w (last_sr st) (last_hidden st)))))
                 \<and> trained = st\<lparr>last_hidden := Some nxt, last_sr := detach sr,
                       total_loss := accumulate (total_loss st) (mse sr (labels ! i)),
                       image_loss := accumulate (image_loss st) (mse sr (labels ! i))\<rparr>)"
  proof
    assume "train_body self mse frames labels i st = Inr trained"
    from train_body_Inr[OF this] g obtain sr nxt
      where fw: "RlspNet_forward (rlsp self) ?w (last_sr st) (last_hidden st) = Inr (sr, nxt)"
        and tr: "trained = st\<lparr>last_hidden := Some nxt, last_sr := detach sr,
                       total_loss := accumulate (total_loss st) (mse sr (labels ! i)),
                       image_loss := accumulate (image_loss st) (mse sr (labels ! i))\<rparr>"
      by auto
    from RlspNet_forward_expr[OF fw] have e1: "expr nxt = Conv (tag (hidden_conv (rlspcell (rlsp self))))
                      (stack_expr (cell (rlspcell (rlsp self)))
                         (cell_input (rlsp self) ?w (last_sr st) (last_hidden st)))"
      and e2: "expr sr = Add (Interpolate (net_s (rlsp self))
                                    (expr (?w ! (net_d (rlsp self) div 2))))
                      (PixelShuffle (net_s (rlsp self))
                         (Conv (tag (exit_conv (rlspcell (rlsp self))))
                            (stack_expr (cell (rlspcell (rlsp self)))
                               (cell_input (rlsp self) ?w (last_sr st) (last_hidden st)))))"
      by blast+
    show "\<exists>sr nxt. RlspNet_forward (rlsp self) ?w (last_sr st) (last_hidden st) = Inr (sr, nxt)
                 \<and> expr nxt = Conv (tag (hidden_conv (rlspcell (rlsp self))))
                      (stack_expr (cell (rlspcell (rlsp self)))
                         (cell_input (rlsp self) ?w (last_sr st) (last_hidden st)))
                 \<and> expr sr = Add (Interpolate (net_s (rlsp self))
                                    (expr (?w ! (net_d (rlsp self) div 2))))
                      (PixelShuffle (net_s (rlsp self))
                         (Conv (tag (exit_conv (rlspcell (rlsp self))))
                            (stack_expr (cell (rlspcell (rlsp self)))
                               (cell_input (rlsp self) ?w (last_sr st) (last_hidden st)))))
                 \<and> trained = st\<lparr>last_hidden := Some nxt, last_sr := detach sr,
                       total_loss := accumulate (total_loss st) (mse sr (labels ! i)),
                       image_loss := accumulate (image_loss st) (mse sr (labels ! i))\<rparr>"
      by (intro exI[of _ sr] exI[of _ nxt] conjI) (rule fw e1 e2 tr)+
  qed
  have v1: "eval_body self metric frames labels' i st' = Inr evaluated \<longrightarrow>
      (\<exists>sr nxt. RlspNet_forward (rlsp self) ?w (last_sr st') (last_hidden st') = Inr (sr, nxt)
                 \<and> expr nxt = Conv (tag (hidden_conv (rlspcell (rlsp self))))
                      (stack_expr (cell (rlspcell (rlsp self)))
                         (cell_input (rlsp self) ?w (last_sr st') (last_hidden st')))
                 \<and> expr sr = Add (Interpolate (net_s (rlsp self))
                                    (expr (?w ! (net_d (rlsp self) div 2))))
                      (PixelShuffle (net_s (rlsp self))
                         (Conv (tag (exit_conv (rlspcell (rlsp self))))
                            (stack_expr (cell (rlspcell (rlsp self)))
                               (cell_input (rlsp self) ?w (last_sr st') (last_hidden st')))))
                 \<and> evaluated = st'\<lparr>idx := i, last_sr := detach sr,
                       predicts := predicts st' @ [detach sr],
                       psnr := psnr st' @ (case labels' of None \<Rightarrow> []
                                             | Some ls \<Rightarrow> [metric sr (ls ! i)])\<rparr>)"
  proof
    assume "eval_body self metric frames labels' i st' = Inr evaluated"
    from eval_body_Inr[OF this] g obtain sr nxt
      where fw: "RlspNet_forward (rlsp self) ?w (last_sr st') (last_hidden st') = Inr (sr, nxt)"
        and ev: "evaluated = st'\<lparr>idx := i, last_sr := detach sr,
                       predicts := predicts st' @ [detach sr],
                       psnr := psnr st' @ (case labels' of None \<Rightarrow> []
                                             | Some ls \<Rightarrow> [metric sr (ls ! i)])\<rparr>"
      by auto
    from RlspNet_forward_expr[OF fw] have e1: "expr nxt = Conv (tag (hidden_conv (rlspcell (rlsp self))))
                      (stack_expr (cell (rlspcell (rlsp self)))
                         (cell_input (rlsp self) ?w (last_sr st') (last_hidden st')))"
      and e2: "expr sr = Add (Interpolate (net_s (rlsp self))
                                    (expr (?w ! (net_d (rlsp self) div 2))))
                      (PixelShuffle (net_s (rlsp self))
                         (Conv (tag (exit_conv (rlspcell (rlsp self))))
                            (stack_expr (cell (rlspcell (rlsp self)))
                               (cell_input (rlsp self) ?w (last_sr st') (last_hidden st')))))"
      by blast+
    show "\<exists>sr nxt. RlspNet_forward (rlsp self) ?w (last_sr st') (last_hidden st') = Inr (sr, nxt)
                 \<and> expr nxt = Conv (tag (hidden_conv (rlspcell (rlsp self))))
                      (stack_expr (cell (rlspcell (rlsp self)))
                         (cell_input (rlsp self) ?w (last_sr st') (last_hidden st')))
                 \<and> expr sr = Add (Interpolate (net_s (rlsp self))
                                    (expr (?w ! (net_d (rlsp self) div 2))))
                      (PixelShuffle (net_s (rlsp self))
                         (Conv (tag (exit_conv (rlspcell (rlsp self))))
                            (stack_expr (cell (rlspcell (rlsp self)))
                               (cell_input (rlsp self) ?w (last_sr st') (last_hidden st')))))
                 \<and> evaluated = st'\<lparr>idx := i, last_sr := detach sr,
                       predicts := predicts st' @ [detach sr],
                       psnr := psnr st' @ (case labels' of None \<Rightarrow> []
                                             | Some ls \<Rightarrow> [metric sr (ls ! i)])\<rparr>"
      by (intro exI[of _ sr] exI[of _ nxt] conjI) (rule fw e1 e2 ev)+
  qed
  show ?thesis
    by (intro exI[of _ ?w] conjI) (rule g refl len o1 t1 v1)+
qed

theorem window_and_cell_input_witness:
  "lr_group example_model example_frames 2 = Inr [example_frame 1, example_frame 2, example_frame 3]
   \<and> train_body example_model example_metric example_frames example_labels 2
       \<lparr>last_sr = detach first_sr, last_hidden = Some first_hidden,
        total_loss = Scalar 119, image_loss = Scalar 119\<rparr>
       = Inr \<lparr>last_sr = detach (second_sr (expr first_hidden)),
              last_hidden = Some (second_hidden (expr first_hidden)),
              total_loss = Scalar 273, image_loss = Scalar 273\<rparr>
   \<and> RlspNet_forward (rlsp example_model) [example_frame 1, example_frame 2, example_frame 3]
       (detach first_sr) (Some first_hidden)
       = Inr (second_sr (expr first_hidden), second_hidden (expr first_hidden))
   \<and> expr (second_hidden (expr first_hidden))
       = Conv HiddenLayer (Conv (CellLayer 0)
           (Cat [Cat [Input 1, Input 2, Input 3], expr first_hidden,
                 Detach (SpaceToDepth 2 (Detach (expr first_sr)))]))
   \<and> eval_body example_model example_metric example_frames (Some example_labels) 2
       \<lparr>last_sr = detach first_sr, last_hidden = None, psnr = [119],
        predicts = [detach first_sr], idx = 1\<rparr>
       = Inr \<lparr>last_sr = detach (second_sr Zeros), last_hidden = None, psnr = [119, 142],
              predicts = [detach first_sr, detach (second_sr Zeros)], idx = 2\<rparr>
   \<and> (\<exists>nxt. RlspNet_forward (rlsp example_model) [example_frame 1, example_frame 2, example_frame 3]
           (detach first_sr) None = Inr (second_sr Zeros, nxt)
         \<and> expr nxt = Conv HiddenLayer (Conv (CellLayer 0)
             (Cat [Cat [Input 1, Input 2, Input 3], Zeros,
                   Detach (SpaceToDepth 2 (Detach (expr first_sr)))])))"
proof -
  let ?st = "\<lparr>last_sr = detach first_sr, last_hidden = Some first_hidden,
              total_loss = Scalar 119, image_loss = Scalar 119\<rparr>"
  let ?trained = "\<lparr>last_sr = detach (second_sr (expr first_hidden)),
              last_hidden = Some (second_hidden (expr first_hidden)),
              total_loss = Scalar 273, image_loss = Scalar 273\<rparr>"
  let ?st' = "\<lparr>last_sr = detach first_sr, last_hidden = None, psnr = [119],
               predicts = [detach first_sr], idx = 1\<rparr>"
  let ?evaluated = "\<lparr>last_sr = detach (second_sr Zeros), last_hidden = None, psnr = [119, 142],
              predicts = [detach first_sr, detach (second_sr Zeros)], idx = 2\<rparr>"
  let ?net = "rlsp example_model"
  have i: "2 \<in> set (centers example_model example_frames)"
    by (simp add: model_defs centers_def)
  from window_and_cell_input[OF i, where mse = example_metric and labels = example_labels
      and st = ?st and metric = example_metric and labels' = "Some example_labels" and st' = ?st'
      and trained = ?trained and evaluated = ?evaluated]
  obtain window where g: "lr_group example_model example_frames 2 = Inr window"
    and w: "window = map (\<lambda>j. example_frames ! (2 - clips example_model div 2 + j))
                       [0..<clips example_model]"
    and tr: "train_body example_model example_metric example_frames example_labels 2 ?st
               = Inr ?trained \<longrightarrow>
             (\<exists>sr nxt. RlspNet_forward ?net window (last_sr ?st) (last_hidden ?st) = Inr (sr, nxt)
                 \<and> expr nxt = Conv (tag (hidden_conv (rlspcell ?net)))
                      (stack_expr (cell (rlspcell ?net))
                         (cell_input ?net window (last_sr ?st) (last_hidden ?st)))
                 \<and> expr sr = Add (Interpolate (net_s ?net) (expr (window ! (net_d ?net div 2))))
                      (PixelShuffle (net_s ?net)
                         (Conv (tag (exit_conv (rlspcell ?net)))
                            (stack_expr (cell (rlspcell ?net))
                               (cell_input ?net window (last_sr ?st) (last_hidden ?st)))))
                 \<and> ?trained = ?st\<lparr>last_hidden := Some nxt, last_sr := detach sr,
                       total_loss := accumulate (total_loss ?st) (example_metric sr (example_labels ! 2)),
                       image_loss := accumulate (image_loss ?st) (example_metric sr (example_labels ! 2))\<rparr>)"
    and ev: "eval_body example_model example_metric example_frames (Some example_labels) 2 ?st'
               = Inr ?evaluated \<longrightarrow>
             (\<exists>sr nxt. RlspNet_forward ?net window (last_sr ?st') (last_hidden ?st') = Inr (sr, nxt)
                 \<and> expr nxt = Conv (tag (hidden_conv (rlspcell ?net)))
                      (stack_expr (cell (rlspcell ?net))
                         (cell_input ?net window (last_sr ?st') (last_hidden ?st')))
                 \<and> expr sr = Add (Interpolate (net_s ?net) (expr (window ! (net_d ?net div 2))))
                      (PixelShuffle (net_s ?net)
                         (Conv (tag (exit_conv (rlspcell ?net)))
                            (stack_expr (cell (rlspcell ?net))
                               (cell_input ?net window (last_sr ?st') (last_hidden ?st')))))
                 \<and> ?evaluated = ?st'\<lparr>idx := 2, last_sr := detach sr,
                       predicts := predicts ?st' @ [detach sr],
                       psnr := psnr ?st' @ (case Some example_labels of None \<Rightarrow> []
                                             | Some ls \<Rightarrow> [example_metric sr (ls ! 2)])\<rparr>)"
    by (elim exE conjE) (rule that)
  have w': "window = [example_frame 1, example_frame 2, example_frame 3]"
    unfolding w by (simp add: model_defs upt_rec)
  from tr[rule_format, OF example_train_body_second] obtain sr nxt
    where fw: "RlspNet_forward ?net window (detach first_sr) (Some first_hidden) = Inr (sr, nxt)"
      and e: "expr nxt = Conv (tag (hidden_conv (rlspcell ?net)))
                      (stack_expr (cell (rlspcell ?net))
                         (cell_input ?net window (detach first_sr) (Some first_hidden)))"
      and t: "?trained = ?st\<lparr>last_hidden := Some nxt, last_sr := detach sr,
                       total_loss := accumulate (total_loss ?st) (example_metric sr (example_labels ! 2)),
                       image_loss := accumulate (image_loss ?st) (example_metric sr (example_labels ! 2))\<rparr>"
    by (simp only: loop_vars.simps) blast
  from t have nxt: "nxt = second_hidden (expr first_hidden)"
    and "detach sr = detach (second_sr (expr first_hidden))"
    by simp_all
  then have sr: "sr = second_sr (expr first_hidden)"
    by (auto dest: detach_inj)
  have e': "expr (second_hidden (expr first_hidden))
       = Conv HiddenLayer (Conv (CellLayer 0)
           (Cat [Cat [Input 1, Input 2, Input 3], expr first_hidden,
                 Detach (SpaceToDepth 2 (Detach (expr first_sr)))]))"
    using e unfolding nxt w'
    by (simp add: model_defs stack_expr_def cell_input_def hidden_expr_def detach_def)
  from ev[rule_format, OF example_eval_body_second] obtain sr' nxt'
    where fw': "RlspNet_forward ?net window (detach first_sr) None = Inr (sr', nxt')"
      and e2: "expr nxt' = Conv (tag (hidden_conv (rlspcell ?net)))
                      (stack_expr (cell (rlspcell ?net))
                         (cell_input ?net window (detach first_sr) None))"
      and t': "?evaluated = ?st'\<lparr>idx := 2, last_sr := detach sr',
                       predicts := predicts ?st' @ [detach sr'],
                       psnr := psnr ?st' @ (case Some example_labels of None \<Rightarrow> []
                                             | Some ls \<Rightarrow> [example_metric sr' (ls ! 2)])\<rparr>"
    by (simp only: loop_vars.simps) blast
  from t' have "detach sr' = detach (second_sr Zeros)"
    by simp
  then have sr': "sr' = second_sr Zeros"
    by (auto dest: detach_inj)
  have e2': "expr nxt' = Conv HiddenLayer (Conv (CellLayer 0)
             (Cat [Cat [Input 1, Input 2, Input 3], Zeros,
                   Detach (SpaceToDepth 2 (Detach (expr first_sr)))]))"
    using e2 unfolding w'
    by (simp add: model_defs stack_expr_def cell_input_def hidden_expr_def detach_def)
  have last: "\<exists>nxt. RlspNet_forward ?net [example_frame 1, example_frame 2, example_frame 3]
           (detach first_sr) None = Inr (second_sr Zeros, nxt)
         \<and> expr nxt = Conv HiddenLayer (Conv (CellLayer 0)
             (Cat [Cat [Input 1, Input 2, Input 3], Zeros,
                   Detach (SpaceToDepth 2 (Detach (expr first_sr)))]))"
    using fw' e2' unfolding sr' w' by blast
  show ?thesis
    by (intro conjI)
       (rule g[unfolded w'] example_train_body_second fw[unfolded sr nxt w'] e'
          example_eval_body_second last)+
qed




text \<open>
  C8. In a training call and in an evaluation call that return, the first call of the
  network gets as feedback the zero tensor of the shape of the upsampled first frame, and
  call \<open>k > 0\<close> gets the detached frame that call \<open>k - 1\<close> predicted. The losses the
  training call returns and backpropagates, and the predictions the evaluation call
  returns, are those of the frames these calls produced.
\<close>

theorem feedback_frames:
  "(train self mse adam frames labels learning_rate = (Inr losses, adam') \<longrightarrow>
      (\<exists>z outs loss. initial_sr self frames = Inr z
         \<and> (case upsample (frames ! 0) (scale self) of
               Inl e \<Rightarrow> False | Inr up \<Rightarrow> z = torch_zeros (shape up))
         \<and> length outs = length frames - 2 * (clips self div 2)
         \<and> (\<forall>k<length outs.
               ebind (lr_group self frames (clips self div 2 + k)) (\<lambda>group.
                 RlspNet_forward (rlsp self) group
                   (if k = 0 then z else detach (fst (outs ! (k - 1))))
                   (hidden_in True outs k)) = Inr (outs ! k))
         \<and> loss = sum_list (map (\<lambda>k. mse (fst (outs ! k)) (labels ! (clips self div 2 + k)))
                              [0..<length outs])
         \<and> losses = [(''total_loss'', loss / real (length frames)),
                      (''image_loss'', loss / real (length frames))]
         \<and> Backward loss \<in> set (calls adam')))
   \<and> (eval self metric has_writer frames labels' kwargs = (Inr (preds, metrics), written) \<longrightarrow>
      (\<exists>z outs. initial_sr self frames = Inr z
         \<and> (case upsample (frames ! 0) (scale self) of
               Inl e \<Rightarrow> False | Inr up \<Rightarrow> z = torch_zeros (shape up))
         \<and> length outs = length frames - 2 * (clips self div 2)
         \<and> preds = map (\<lambda>out. detach (fst out)) outs
         \<and> (\<forall>k<length outs.
               ebind (lr_group self frames (clips self div 2 + k)) (\<lambda>group.
                 RlspNet_forward (rlsp self) group
                   (if k = 0 then z else detach (fst (outs ! (k - 1))))
                   (hidden_in False outs k)) = Inr (outs ! k))))"
proof (intro conjI impI)
  assume tr: "train self mse adam frames labels learning_rate = (Inr losses, adam')"
  from train_Inr[OF tr] obtain st tloss iloss
    where loop: "train_loop self mse frames labels = Inr st"
      and tl: "total_loss st = Scalar tloss" and il: "image_loss st = Scalar iloss"
      and ls: "losses = [(''total_loss'', tloss / real (length frames)),
                        (''image_loss'', iloss / real (length frames))]"
    by blast
  from train_Inr_calls[OF tr] loop tl
  have cs: "calls adam' = calls adam @ [ZeroGrad, Backward tloss,
                 Step (param_groups (set_learning_rate learning_rate adam))]"
    by auto
  from train_loop_run_losses[OF loop] obtain z outs
    where z: "initial_sr self frames = Inr z"
      and run: "run_of True self frames (centers self frames) z outs"
      and tot: "total_loss st = foldl accumulate PyInt0
                 (map (\<lambda>k. mse (fst (outs ! k)) (labels ! (clips self div 2 + k))) [0..<length outs])"
      and img: "image_loss st = total_loss st"
    by blast
  let ?loss = "sum_list (map (\<lambda>k. mse (fst (outs ! k)) (labels ! (clips self div 2 + k)))
                              [0..<length outs])"
  have t: "tloss = ?loss"
    using foldl_accumulate_Scalar_iff[OF tot[unfolded tl, symmetric]] by simp
  have i: "iloss = ?loss"
    using img il tl t by simp
  have len: "length outs = length frames - 2 * (clips self div 2)"
    using run_of_length[OF run] by (simp add: length_centers)
  have chain: "\<forall>k<length outs.
               ebind (lr_group self frames (clips self div 2 + k)) (\<lambda>group.
                 RlspNet_forward (rlsp self) group
                   (if k = 0 then z else detach (fst (outs ! (k - 1))))
                   (hidden_in True outs k)) = Inr (outs ! k)"
    using run_of_nth[OF run] by blast
  have zz: "case upsample (frames ! 0) (scale self) of
               Inl e \<Rightarrow> False | Inr up \<Rightarrow> z = torch_zeros (shape up)"
    using initial_sr_Inr[OF z] by blast
  have ls': "losses = [(''total_loss'', ?loss / real (length frames)),
                      (''image_loss'', ?loss / real (length frames))]"
    using ls t i by simp
  have bw: "Backward ?loss \<in> set (calls adam')"
    using cs t by simp
  show "\<exists>z outs loss. initial_sr self frames = Inr z
         \<and> (case upsample (frames ! 0) (scale self) of
               Inl e \<Rightarrow> False | Inr up \<Rightarrow> z = torch_zeros (shape up))
         \<and> length outs = length frames - 2 * (clips self div 2)
         \<and> (\<forall>k<length outs.
               ebind (lr_group self frames (clips self div 2 + k)) (\<lambda>group.
                 RlspNet_forward (rlsp self) group
                   (if k = 0 then z else detach (fst (outs ! (k - 1))))
                   (hidden_in True outs k)) = Inr (outs ! k))
         \<and> loss = sum_list (map (\<lambda>k. mse (fst (outs ! k)) (labels ! (clips self div 2 + k)))
                              [0..<length outs])
         \<and> losses = [(''total_loss'', loss / real (length frames)),
                      (''image_loss'', loss / real (length frames))]
         \<and> Backward loss \<in> set (calls adam')"
    by (intro exI[of _ z] exI[of _ outs] exI[of _ ?loss] conjI) (rule z zz len chain refl ls' bw)+
next
  assume "eval self metric has_writer frames labels' kwargs = (Inr (preds, metrics), written)"
  then obtain st where loop: "eval_loop self metric frames labels' = Inr st"
    and preds: "preds = predicts st"
    using eval_Inr by blast
  from eval_loop_run[OF loop] obtain z outs where z: "initial_sr self frames = Inr z"
    and run: "run_of False self frames (centers self frames) z outs"
    and p: "predicts st = map (\<lambda>out. detach (fst out)) outs"
    by blast
  have len: "length outs = length frames - 2 * (clips self div 2)"
    using run_of_length[OF run] by (simp add: length_centers)
  show "\<exists>z outs. initial_sr self frames = Inr z
         \<and> (case upsample (frames ! 0) (scale self) of
               Inl e \<Rightarrow> False | Inr up \<Rightarrow> z = torch_zeros (shape up))
         \<and> length outs = length frames - 2 * (clips self div 2)
         \<and> preds = map (\<lambda>out. detach (fst out)) outs
         \<and> (\<forall>k<length outs.
               ebind (lr_group self frames (clips self div 2 + k)) (\<lambda>group.
                 RlspNet_forward (rlsp self) group
                   (if k = 0 then z else detach (fst (outs ! (k - 1))))
                   (hidden_in False outs k)) = Inr (outs ! k))"
    using z initial_sr_Inr[OF z] len run_of_nth[OF run] preds p
    by (intro exI[of _ z] exI[of _ outs]) simp
qed

theorem feedback_frames_witness:
  "(\<exists>z outs. initial_sr example_model example_frames = Inr z \<and> z = torch_zeros [1, 1, 8, 8]
       \<and> outs = [(first_sr, first_hidden),
                  (second_sr (expr first_hidden), second_hidden (expr first_hidden))]
       \<and> RlspNet_forward (rlsp example_model) [example_frame 0, example_frame 1, example_frame 2]
            z None = Inr (outs ! 0)
       \<and> RlspNet_forward (rlsp example_model) [example_frame 1, example_frame 2, example_frame 3]
            (detach (fst (outs ! 0))) (Some (snd (outs ! 0))) = Inr (outs ! 1)
       \<and> fst (train example_model example_metric example_adam example_frames example_labels None)
            = Inr [(''total_loss'', (example_metric (fst (outs ! 0)) (example_label 1)
                                     + example_metric (fst (outs ! 1)) (example_label 2)) / 4),
                   (''image_loss'', (example_metric (fst (outs ! 0)) (example_label 1)
                                     + example_metric (fst (outs ! 1)) (example_label 2)) / 4)]
       \<and> example_metric (fst (outs ! 0)) (example_label 1) = 119
       \<and> example_metric (fst (outs ! 1)) (example_label 2) = 154)
   \<and> (\<exists>z outs. initial_sr example_model example_frames = Inr z \<and> z = torch_zeros [1, 1, 8, 8]
       \<and> [detach first_sr, detach (second_sr Zeros)] = map (\<lambda>out. detach (fst out)) outs
       \<and> RlspNet_forward (rlsp example_model) [example_frame 0, example_frame 1, example_frame 2]
            z None = Inr (outs ! 0)
       \<and> RlspNet_forward (rlsp example_model) [example_frame 1, example_frame 2, example_frame 3]
            (detach (fst (outs ! 0))) None = Inr (outs ! 1))"
proof -
  let ?m1 = "example_metric first_sr (example_label 1)"
  let ?m2 = "example_metric (second_sr (expr first_hidden)) (example_label 2)"
  let ?losses = "[(''total_loss'', (?m1 + ?m2) / 4), (''image_loss'', (?m1 + ?m2) / 4)]"
  let ?adam = "\<lparr>param_groups = [1 / 10000],
                calls = [ZeroGrad, Backward (?m1 + ?m2), Step [1 / 10000]]\<rparr>"
  have g0: "lr_group example_model example_frames (clips example_model div 2)
              = Inr [example_frame 0, example_frame 1, example_frame 2]"
    and g1: "lr_group example_model example_frames (Suc (clips example_model div 2))
              = Inr [example_frame 1, example_frame 2, example_frame 3]"
    by (simp_all add: model_defs lr_group_def py_index_def upt_rec)
  have up: "upsample (example_frames ! 0) (scale example_model)
              = Inr \<lparr>shape = [1, 1, 8, 8], expr = Upsample 2 (Input 0)\<rparr>"
    by (simp add: model_defs upsample_def)
  note inst = feedback_frames[where self = example_model and frames = example_frames
      and mse = example_metric and metric = example_metric and adam = example_adam
      and labels = example_labels and learning_rate = None and labels' = None
      and has_writer = False and kwargs = Map.empty
      and losses = ?losses and adam' = ?adam
      and preds = "[detach first_sr, detach (second_sr Zeros)]" and metrics = "[(''psnr'', NaN)]"
      and written = "[]"]
  have tr: "train example_model example_metric example_adam example_frames example_labels None
              = (Inr ?losses, ?adam)"
    by (rule example_train_mse)
  from inst[THEN conjunct1, rule_format, OF tr]
  obtain z outs loss where z: "initial_sr example_model example_frames = Inr z"
    and zz: "case upsample (example_frames ! 0) (scale example_model) of
               Inl e \<Rightarrow> False | Inr up \<Rightarrow> z = torch_zeros (shape up)"
    and len: "length outs = length example_frames - 2 * (clips example_model div 2)"
    and calls: "\<forall>k<length outs.
               ebind (lr_group example_model example_frames (clips example_model div 2 + k)) (\<lambda>group.
                 RlspNet_forward (rlsp example_model) group
                   (if k = 0 then z else detach (fst (outs ! (k - 1))))
                   (hidden_in True outs k)) = Inr (outs ! k)"
    and loss: "loss = sum_list (map (\<lambda>k. example_metric (fst (outs ! k))
                                         (example_labels ! (clips example_model div 2 + k)))
                              [0..<length outs])"
    and ls: "?losses = [(''total_loss'', loss / real (length example_frames)),
                        (''image_loss'', loss / real (length example_frames))]"
    by (elim exE conjE) (rule that)
  have len2: "length outs = 2"
    using len by (simp add: model_defs)
  have z': "z = torch_zeros [1, 1, 8, 8]"
    using zz by (simp add: up)
  have c0: "RlspNet_forward (rlsp example_model) [example_frame 0, example_frame 1, example_frame 2]
              z None = Inr (outs ! 0)"
    using calls[rule_format, of 0] len2 by (simp add: g0 hidden_in_def)
  then have o0: "outs ! 0 = (first_sr, first_hidden)"
    unfolding z' example_first_call by simp
  have c1: "RlspNet_forward (rlsp example_model) [example_frame 1, example_frame 2, example_frame 3]
              (detach (fst (outs ! 0))) (Some (snd (outs ! 0))) = Inr (outs ! 1)"
    using calls[rule_format, of 1] len2 by (simp add: g1 hidden_in_def)
  have hs: "hidden_shaped [1, 4, 4, 4] (Some first_hidden)"
    by (simp add: hidden_shaped_def first_hidden_def)
  have o1: "outs ! 1 = (second_sr (expr first_hidden), second_hidden (expr first_hidden))"
    using c1 unfolding o0 fst_conv snd_conv example_second_call[OF hs]
    by (simp add: hidden_expr_def)
  have outs: "outs = [(first_sr, first_hidden),
                      (second_sr (expr first_hidden), second_hidden (expr first_hidden))]"
    using list_of_two[OF len2] unfolding o0 o1 .
  have tr1: "fst (train example_model example_metric example_adam example_frames example_labels None)
            = Inr [(''total_loss'', (example_metric (fst (outs ! 0)) (example_label 1)
                                     + example_metric (fst (outs ! 1)) (example_label 2)) / 4),
                   (''image_loss'', (example_metric (fst (outs ! 0)) (example_label 1)
                                     + example_metric (fst (outs ! 1)) (example_label 2)) / 4)]"
    unfolding tr o0 o1 by simp
  have v0: "example_metric (fst (outs ! 0)) (example_label 1) = 119"
    and v1: "example_metric (fst (outs ! 1)) (example_label 2) = 154"
    unfolding o0 o1 by (simp_all add: example_metric_values)
  have a: "\<exists>z outs. initial_sr example_model example_frames = Inr z \<and> z = torch_zeros [1, 1, 8, 8]
       \<and> outs = [(first_sr, first_hidden),
                  (second_sr (expr first_hidden), second_hidden (expr first_hidden))]
       \<and> RlspNet_forward (rlsp example_model) [example_frame 0, example_frame 1, example_frame 2]
            z None = Inr (outs ! 0)
       \<and> RlspNet_forward (rlsp example_model) [example_frame 1, example_frame 2, example_frame 3]
            (detach (fst (outs ! 0))) (Some (snd (outs ! 0))) = Inr (outs ! 1)
       \<and> fst (train example_model example_metric example_adam example_frames example_labels None)
            = Inr [(''total_loss'', (example_metric (fst (outs ! 0)) (example_label 1)
                                     + example_metric (fst (outs ! 1)) (example_label 2)) / 4),
                   (''image_loss'', (example_metric (fst (outs ! 0)) (example_label 1)
                                     + example_metric (fst (outs ! 1)) (example_label 2)) / 4)]
       \<and> example_metric (fst (outs ! 0)) (example_label 1) = 119
       \<and> example_metric (fst (outs ! 1)) (example_label 2) = 154"
    by (intro exI[of _ z] exI[of _ outs] conjI) (rule z z' outs c0 c1 tr1 v0 v1)+
  have ev: "eval example_model example_metric False example_frames None Map.empty
      = (Inr ([detach first_sr, detach (second_sr Zeros)], [(''psnr'', NaN)]), [])"
    by (simp add: model_defs run_defs torch_defs value_defs Let_def upt_rec power2_eq_square)
  from inst[THEN conjunct2, rule_format, OF ev]
  obtain z2 outs2 where z2: "initial_sr example_model example_frames = Inr z2"
    and zz2: "case upsample (example_frames ! 0) (scale example_model) of
               Inl e \<Rightarrow> False | Inr up \<Rightarrow> z2 = torch_zeros (shape up)"
    and len': "length outs2 = length example_frames - 2 * (clips example_model div 2)"
    and preds: "[detach first_sr, detach (second_sr Zeros)] = map (\<lambda>out. detach (fst out)) outs2"
    and calls': "\<forall>k<length outs2.
               ebind (lr_group example_model example_frames (clips example_model div 2 + k)) (\<lambda>group.
                 RlspNet_forward (rlsp example_model) group
                   (if k = 0 then z2 else detach (fst (outs2 ! (k - 1))))
                   (hidden_in False outs2 k)) = Inr (outs2 ! k)"
    by (elim exE conjE) (rule that)
  have len2': "length outs2 = 2"
    using len' by (simp add: model_defs)
  have z2': "z2 = torch_zeros [1, 1, 8, 8]"
    using zz2 by (simp add: up)
  have d0: "RlspNet_forward (rlsp example_model) [example_frame 0, example_frame 1, example_frame 2]
              z2 None = Inr (outs2 ! 0)"
    using calls'[rule_format, of 0] len2' by (simp add: g0 hidden_in_def)
  have d1: "RlspNet_forward (rlsp example_model) [example_frame 1, example_frame 2, example_frame 3]
              (detach (fst (outs2 ! 0))) None = Inr (outs2 ! 1)"
    using calls'[rule_format, of 1] len2' by (simp add: g1 hidden_in_def)
  have b: "\<exists>z outs. initial_sr example_model example_frames = Inr z \<and> z = torch_zeros [1, 1, 8, 8]
       \<and> [detach first_sr, detach (second_sr Zeros)] = map (\<lambda>out. detach (fst out)) outs
       \<and> RlspNet_forward (rlsp example_model) [example_frame 0, example_frame 1, example_frame 2]
            z None = Inr (outs ! 0)
       \<and> RlspNet_forward (rlsp example_model) [example_frame 1, example_frame 2, example_frame 3]
            (detach (fst (outs ! 0))) None = Inr (outs ! 1)"
    by (intro exI[of _ z2] exI[of _ outs2] conjI) (rule z2 z2' preds d0 d1)+
  from a b show ?thesis by (rule conjI)
qed

text \<open>
  C9. A training call with \<^verbatim>\<open>learning_rate=None\<close> leaves the learning rate of every
  parameter group as it was; with a learning rate \<open>r\<close> other than 0 every group has the
  rate \<open>r\<close> afterwards, and the optimizer step of the call, if it is reached, runs under
  these rates.
\<close>

theorem learning_rate_of_the_optimizer:
  "param_groups (snd (train self mse adam frames labels None)) = param_groups adam
   \<and> (r \<noteq> 0 \<longrightarrow>
        param_groups (snd (train self mse adam frames labels (Some r)))
          = map (\<lambda>group. r) (param_groups adam)
      \<and> (\<exists>new. calls (snd (train self mse adam frames labels (Some r))) = calls adam @ new
            \<and> (\<forall>groups. Step groups \<in> set new \<longrightarrow> groups = map (\<lambda>group. r) (param_groups adam))))"
proof -
  from train_optimizer[of self mse adam frames labels None]
  have a: "param_groups (snd (train self mse adam frames labels None)) = param_groups adam"
    by (auto simp: set_learning_rate_def)
  have b: "param_groups (snd (train self mse adam frames labels (Some r)))
          = map (\<lambda>group. r) (param_groups adam)
      \<and> (\<exists>new. calls (snd (train self mse adam frames labels (Some r))) = calls adam @ new
            \<and> (\<forall>groups. Step groups \<in> set new \<longrightarrow> groups = map (\<lambda>group. r) (param_groups adam)))"
    if "r \<noteq> 0"
  proof -
    have s: "param_groups (set_learning_rate (Some r) adam) = map (\<lambda>group. r) (param_groups adam)"
      using that by (simp add: set_learning_rate_def)
    from train_optimizer[of self mse adam frames labels "Some r"]
    show ?thesis unfolding s by auto
  qed
  from a b show ?thesis by blast
qed

theorem learning_rate_of_the_optimizer_witness:
  "param_groups (snd (train example_model (\<lambda>x y. 1) example_adam example_frames example_labels None))
     = [1 / 10000]
   \<and> param_groups (snd (train example_model (\<lambda>x y. 1) example_adam example_frames example_labels
                          (Some (1 / 2)))) = [1 / 2]
   \<and> calls (snd (train example_model (\<lambda>x y. 1) example_adam example_frames example_labels
                    (Some (1 / 2)))) = [ZeroGrad, Backward 2, Step [1 / 2]]"
proof -
  have r: "(1 / 2 :: real) \<noteq> 0" by simp
  from learning_rate_of_the_optimizer[where r = "1 / 2" and adam = example_adam
      and self = example_model and mse = "\<lambda>x y. 1" and frames = example_frames
      and labels = example_labels]
  have "param_groups (snd (train example_model (\<lambda>x y. 1) example_adam example_frames
                             example_labels None)) = param_groups example_adam"
    and "param_groups (snd (train example_model (\<lambda>x y. 1) example_adam example_frames
                              example_labels (Some (1 / 2))))
           = map (\<lambda>group. 1 / 2) (param_groups example_adam)"
    using r by blast+
  moreover have "calls (snd (train example_model (\<lambda>x y. 1) example_adam example_frames
                    example_labels (Some (1 / 2)))) = [ZeroGrad, Backward 2, Step [1 / 2]]"
    by (subst example_train) (simp add: set_learning_rate_def example_adam_def)
  ultimately show ?thesis
    by (simp add: example_adam_def)
qed

end
